theory Spec2Isabelle
  imports Complex_Main
begin

section \<open>Exceptions\<close>

text \<open>
  The Python exceptions that the modelled functions can raise.  \<open>ValueError\<close> carries its
  message, \<open>KeyError\<close> the missing column label.
\<close>

datatype py_error =
    ValueError string
  | ZeroDivisionError
  | AttributeError
  | KeyError string
  | IndexError
  | TypeError
  | OSError

section \<open>Data loader (\<open>utils.load_data\<close>)\<close>

text \<open>
  \<open>str.endswith\<close>.  Paths are byte strings; all four suffixes are ASCII, so a suffix test
  on the UTF-8 bytes agrees with Python's test on code points.
\<close>

definition endswith :: "string \<Rightarrow> string \<Rightarrow> bool" where
  "endswith s suf \<longleftrightarrow>
     length suf \<le> length s \<and> drop (length s - length suf) s = suf"

text \<open>
  The three format parsers (\<open>pd.read_csv\<close>, \<open>pd.read_excel\<close>, \<open>pd.read_json\<close>) belong to
  the table library, not to the repository.  They are parameters: each takes the path and
  the keyword arguments and returns a table or raises.
\<close>

record ('kw, 'tbl) parsers =
  read_csv :: "string \<Rightarrow> 'kw \<Rightarrow> py_error + 'tbl"
  read_excel :: "string \<Rightarrow> 'kw \<Rightarrow> py_error + 'tbl"
  read_json :: "string \<Rightarrow> 'kw \<Rightarrow> py_error + 'tbl"

definition load_data ::
  "('kw, 'tbl) parsers \<Rightarrow> string \<Rightarrow> 'kw \<Rightarrow> py_error + 'tbl" where
  "load_data pd file_path kwargs =
     (if endswith file_path ''.csv'' then read_csv pd file_path kwargs
      else if endswith file_path ''.xlsx'' \<or> endswith file_path ''.xls''
        then read_excel pd file_path kwargs
      else if endswith file_path ''.json'' then read_json pd file_path kwargs
      else Inl (ValueError (''Unsupported file format: '' @ file_path)))"

text \<open>A parser set that records which parser was called and with what arguments.\<close>

datatype 'kw parser_call =
    Csv_call string 'kw
  | Excel_call string 'kw
  | Json_call string 'kw

definition recording_parsers :: "('kw, 'kw parser_call) parsers" where
  "recording_parsers =
     \<lparr> read_csv = (\<lambda>p kw. Inr (Csv_call p kw)),
       read_excel = (\<lambda>p kw. Inr (Excel_call p kw)),
       read_json = (\<lambda>p kw. Inr (Json_call p kw)) \<rparr>"

section \<open>Tables\<close>

text \<open>
  A data frame is an ordered list of named columns.  A column is an \<open>int64\<close> column (which
  cannot hold a missing value), a \<open>float64\<close> column (\<open>None\<close> is NaN) or an \<open>object\<close> column
  of strings (\<open>None\<close> is a missing entry).  Floating-point numbers are idealised as reals:
  the rounding error of double arithmetic is not modelled, except where the program
  itself turns a computed number into decimal digits (the percentage of the report's
  column listing), where the double arithmetic is modelled bit for bit.  Column labels
  and all other text are UTF-8 byte strings.
\<close>

datatype column =
    IntCol "int list"
  | FloatCol "real option list"
  | ObjCol "string option list"

type_synonym table = "(string \<times> column) list"

fun is_numeric :: "column \<Rightarrow> bool" where
  "is_numeric (IntCol _) = True"
| "is_numeric (FloatCol _) = True"
| "is_numeric (ObjCol _) = False"

text \<open>The entries of a numeric column as reals, \<open>None\<close> where the entry is missing.\<close>

fun numbers :: "column \<Rightarrow> real option list" where
  "numbers (IntCol xs) = map (\<lambda>x. Some (of_int x)) xs"
| "numbers (FloatCol xs) = xs"
| "numbers (ObjCol xs) = []"

fun col_len :: "column \<Rightarrow> nat" where
  "col_len (IntCol xs) = length xs"
| "col_len (FloatCol xs) = length xs"
| "col_len (ObjCol xs) = length xs"

text \<open>\<open>len(df)\<close>: the number of rows (0 for a frame without columns).\<close>

fun len_df :: "table \<Rightarrow> nat" where
  "len_df [] = 0"
| "len_df ((_, c) # _) = col_len c"

text \<open>\<open>df[col].isnull().sum()\<close>: the number of missing entries of a column.\<close>

fun isnull_sum :: "column \<Rightarrow> nat" where
  "isnull_sum (IntCol xs) = 0"
| "isnull_sum (FloatCol xs) = length (filter (\<lambda>x. x = None) xs)"
| "isnull_sum (ObjCol xs) = length (filter (\<lambda>x. x = None) xs)"

text \<open>\<open>df.select_dtypes(include=[np.number])\<close>: the numeric columns, in table order.\<close>

definition select_numeric :: "table \<Rightarrow> table" where
  "select_numeric df = filter (\<lambda>(name, c). is_numeric c) df"

text \<open>The cell of a float column, when the column exists and the row is in range.\<close>

definition float_at :: "table \<Rightarrow> string \<Rightarrow> nat \<Rightarrow> real option" where
  "float_at df name i =
     (case map_of df name of
        Some (FloatCol xs) \<Rightarrow> (if i < length xs then xs ! i else None)
      | _ \<Rightarrow> None)"

section \<open>Sample data generator (\<open>example_analysis.create_sample_data\<close>)\<close>

text \<open>The column labels, as UTF-8 bytes.\<close>

definition col_age :: string where
  "col_age = [CHR 0xE5, CHR 0xB9, CHR 0xB4, CHR 0xE9, CHR 0xBD, CHR 0xA2]"

definition col_income :: string where
  "col_income = [CHR 0xE5, CHR 0xB9, CHR 0xB4, CHR 0xE5, CHR 0x8F, CHR 0x8E]"

definition col_tenure :: string where
  "col_tenure = [CHR 0xE5, CHR 0x8B, CHR 0xA4, CHR 0xE7, CHR 0xB6, CHR 0x9A,
                 CHR 0xE5, CHR 0xB9, CHR 0xB4, CHR 0xE6, CHR 0x95, CHR 0xB0]"

definition col_satisfaction :: string where
  "col_satisfaction = [CHR 0xE6, CHR 0xBA, CHR 0x80, CHR 0xE8, CHR 0xB6, CHR 0xB3,
                       CHR 0xE5, CHR 0xBA, CHR 0xA6]"

definition col_department :: string where
  "col_department = [CHR 0xE9, CHR 0x83, CHR 0xA8, CHR 0xE9, CHR 0x96, CHR 0x80]"

definition col_gender :: string where
  "col_gender = [CHR 0xE6, CHR 0x80, CHR 0xA7, CHR 0xE5, CHR 0x88, CHR 0xA5]"

definition n_samples :: nat where
  "n_samples = 1000"

text \<open>
  The six calls of \<open>np.random\<close> after \<open>np.random.seed(42)\<close>.  The generator of numpy is
  outside the repository, so the values it returns are a parameter: row \<open>i\<close> of each draw.
\<close>

record draws =
  normal_age :: "nat \<Rightarrow> real"
  normal_income :: "nat \<Rightarrow> real"
  exponential_tenure :: "nat \<Rightarrow> real"
  uniform_satisfaction :: "nat \<Rightarrow> real"
  choice_department :: "nat \<Rightarrow> string"
  choice_gender :: "nat \<Rightarrow> string"

text \<open>Elementwise array arithmetic of numpy, on arrays of one length.\<close>

definition arr_add :: "real list \<Rightarrow> real list \<Rightarrow> real list" where
  "arr_add xs ys = map2 (+) xs ys"

definition arr_scale :: "real list \<Rightarrow> real \<Rightarrow> real list" where
  "arr_scale xs c = map (\<lambda>x. x * c) xs"

definition arr_shift :: "real list \<Rightarrow> real \<Rightarrow> real list" where
  "arr_shift xs c = map (\<lambda>x. x - c) xs"

definition arr_div :: "real list \<Rightarrow> real \<Rightarrow> real list" where
  "arr_div xs c = map (\<lambda>x. x / c) xs"

text \<open>The dictionary \<open>data\<close> after lines 15 to 26: the drawn and the derived arrays.\<close>

record sample_arrays =
  age :: "real list"
  income :: "real list"
  tenure :: "real list"
  satisfaction :: "real list"
  department :: "string list"
  gender :: "string list"

definition draw_arrays :: "draws \<Rightarrow> sample_arrays" where
  "draw_arrays d =
     \<lparr> age = map (normal_age d) [0..<n_samples],
       income = map (normal_income d) [0..<n_samples],
       tenure = map (exponential_tenure d) [0..<n_samples],
       satisfaction = map (uniform_satisfaction d) [0..<n_samples],
       department = map (choice_department d) [0..<n_samples],
       gender = map (choice_gender d) [0..<n_samples] \<rparr>"

definition add_correlation :: "sample_arrays \<Rightarrow> sample_arrays" where
  "add_correlation data =
     (let data1 = data\<lparr>income :=
            arr_add (arr_add (income data) (arr_scale (age data) 50000))
                    (arr_scale (tenure data) 100000)\<rparr>
      in data1\<lparr>satisfaction :=
            arr_add (satisfaction data1)
                    (arr_div (arr_shift (income data1) 5000000) 1000000)\<rparr>)"

text \<open>\<open>Series.clip(lower, upper)\<close> on one value.\<close>

definition clip :: "real \<Rightarrow> real \<Rightarrow> real \<Rightarrow> real" where
  "clip lower upper x = min (max x lower) upper"

definition create_sample_data :: "draws \<Rightarrow> table" where
  "create_sample_data d =
     (let data = add_correlation (draw_arrays d) in
      [(col_age, FloatCol (map (\<lambda>x. Some (clip 20 65 x)) (age data))),
       (col_income, FloatCol (map (\<lambda>x. Some (clip 2000000 15000000 x)) (income data))),
       (col_tenure, FloatCol (map (\<lambda>x. Some (clip 0 30 x)) (tenure data))),
       (col_satisfaction, FloatCol (map (\<lambda>x. Some (clip 1 10 x)) (satisfaction data))),
       (col_department, ObjCol (map Some (department data))),
       (col_gender, ObjCol (map Some (gender data)))])"

text \<open>The arithmetic mean of an array.\<close>

definition mean :: "real list \<Rightarrow> real" where
  "mean xs = sum_list xs / of_nat (length xs)"

text \<open>A run of the draws in which every row draws the same values.\<close>

definition flat_draws :: draws where
  "flat_draws =
     \<lparr> normal_age = (\<lambda>i. 30), normal_income = (\<lambda>i. 5000000),
       exponential_tenure = (\<lambda>i. 0), uniform_satisfaction = (\<lambda>i. 2),
       choice_department = (\<lambda>i. ''dev''), choice_gender = (\<lambda>i. ''f'') \<rparr>"

text \<open>A run whose first row lies outside every clipping range.\<close>

definition wild_draws :: draws where
  "wild_draws =
     \<lparr> normal_age = (\<lambda>i. 12), normal_income = (\<lambda>i. 90000000),
       exponential_tenure = (\<lambda>i. 45), uniform_satisfaction = (\<lambda>i. 3),
       choice_department = (\<lambda>i. ''dev''), choice_gender = (\<lambda>i. ''f'') \<rparr>"

section \<open>Distribution histograms (\<open>utils.plot_distributions\<close>)\<close>

text \<open>
  One subplot of a figure: whether it is visible, the histogram drawn into it (column
  label, number of bins, opacity), its title and its axis labels.  What the plotting
  library paints for a histogram is not modelled; the cell records the call.
\<close>

record axes_cell =
  visible :: bool
  hist :: "(string \<times> nat \<times> real) option"
  title :: string
  xlabel :: string
  ylabel :: string

definition blank_cell :: axes_cell where
  "blank_cell = \<lparr> visible = True, hist = None, title = [], xlabel = [], ylabel = [] \<rparr>"

text \<open>A figure: its grid dimensions and its subplots in row-major order.\<close>

record figure =
  nrows :: nat
  ncols :: nat
  cells :: "axes_cell list"

text \<open>
  The second value returned by \<open>plt.subplots\<close> refers to the subplots of the figure by
  position.  With the default \<open>squeeze=True\<close> it is a single axes object for a 1 by 1
  grid, a one-dimensional array when exactly one dimension is 1, and a two-dimensional
  array otherwise.
\<close>

datatype axes_ref =
    Ax nat
  | Arr1 "nat list"
  | Arr2 "nat list list"

definition subplots :: "nat \<Rightarrow> nat \<Rightarrow> py_error + (figure \<times> axes_ref)" where
  "subplots n_rows n_cols =
     (if n_rows = 0 \<or> n_cols = 0
        then Inl (ValueError ''Number of rows and columns must be positive'')
      else
        let fig = \<lparr> nrows = n_rows, ncols = n_cols,
                    cells = replicate (n_rows * n_cols) blank_cell \<rparr>
        in if n_rows = 1 \<and> n_cols = 1 then Inr (fig, Ax 0)
           else if n_rows = 1 \<or> n_cols = 1 then Inr (fig, Arr1 [0..<n_rows * n_cols])
           else Inr (fig, Arr2 (map (\<lambda>r. map (\<lambda>c. r * n_cols + c) [0..<n_cols])
                                    [0..<n_rows])))"

text \<open>\<open>axes.reshape(1, -1)\<close>: an array method, which a single axes object does not have.\<close>

fun reshape_row :: "axes_ref \<Rightarrow> py_error + axes_ref" where
  "reshape_row (Ax k) = Inl AttributeError"
| "reshape_row (Arr1 ks) = Inr (Arr2 [ks])"
| "reshape_row (Arr2 rows) = Inr (Arr2 [concat rows])"

text \<open>\<open>axes[row, col_idx]\<close>.\<close>

fun axes_item :: "axes_ref \<Rightarrow> nat \<Rightarrow> nat \<Rightarrow> py_error + nat" where
  "axes_item (Ax k) r c = Inl TypeError"
| "axes_item (Arr1 ks) r c = Inl IndexError"
| "axes_item (Arr2 rows) r c =
     (if r < length rows \<and> c < length (rows ! r) then Inr (rows ! r ! c) else Inl IndexError)"

text \<open>The UTF-8 bytes of the title suffix and of the y-axis label.\<close>

definition title_suffix :: string where
  "title_suffix = [CHR 0xE3, CHR 0x81, CHR 0xAE, CHR 0xE5, CHR 0x88, CHR 0x86,
                   CHR 0xE5, CHR 0xB8, CHR 0x83]"

definition frequency_label :: string where
  "frequency_label = [CHR 0xE9, CHR 0xA0, CHR 0xBB, CHR 0xE5, CHR 0xBA, CHR 0xA6]"

text \<open>Lines 108 to 111 on one subplot.\<close>

definition draw_hist :: "string \<Rightarrow> axes_cell \<Rightarrow> axes_cell" where
  "draw_hist col ax =
     ax\<lparr> hist := Some (col, 30, 7 / 10), title := col @ title_suffix,
         xlabel := col, ylabel := frequency_label \<rparr>"

text \<open>
  The first loop (lines 103 to 111), over \<open>enumerate(columns)\<close>.  It returns the exception
  raised, if any, and the figure as it is at that moment.
\<close>

fun hist_loop ::
  "table \<Rightarrow> axes_ref \<Rightarrow> nat \<Rightarrow> (nat \<times> string) list \<Rightarrow> figure \<Rightarrow> py_error option \<times> figure"
where
  "hist_loop df axes n_cols [] fig = (None, fig)"
| "hist_loop df axes n_cols ((i, col) # rest) fig =
     (case axes_item axes (i div n_cols) (i mod n_cols) of
        Inl e \<Rightarrow> (Some e, fig)
      | Inr k \<Rightarrow>
          (case map_of df col of
             None \<Rightarrow> (Some (KeyError col), fig)
           | Some series \<Rightarrow>
               hist_loop df axes n_cols rest
                 (fig\<lparr>cells := (cells fig)[k := draw_hist col (cells fig ! k)]\<rparr>)))"

text \<open>The second loop (lines 114 to 117), over \<open>range(len(columns), n_rows * n_cols)\<close>.\<close>

fun hide_loop :: "axes_ref \<Rightarrow> nat \<Rightarrow> nat list \<Rightarrow> figure \<Rightarrow> py_error option \<times> figure" where
  "hide_loop axes n_cols [] fig = (None, fig)"
| "hide_loop axes n_cols (i # rest) fig =
     (case axes_item axes (i div n_cols) (i mod n_cols) of
        Inl e \<Rightarrow> (Some e, fig)
      | Inr k \<Rightarrow>
          hide_loop axes n_cols rest
            (fig\<lparr>cells := (cells fig)[k := (cells fig ! k)\<lparr>visible := False\<rparr>]\<rparr>))"

text \<open>
  The result of a call: the exception that ended it (\<open>None\<close> when the chart was laid out
  and shown) and the figure at that moment (\<open>None\<close> when no figure had been created).
\<close>

record plot_run =
  raised :: "py_error option"
  fig_state :: "figure option"

definition plot_distributions :: "table \<Rightarrow> string list option \<Rightarrow> plot_run" where
  "plot_distributions df columns_arg =
     (let columns = (case columns_arg of
                       None \<Rightarrow> map fst (select_numeric df)
                     | Some cs \<Rightarrow> cs);
          n_cols = min 3 (length columns)
      in if n_cols = 0 then \<lparr> raised = Some ZeroDivisionError, fig_state = None \<rparr>
         else
           let n_rows = (length columns + n_cols - 1) div n_cols
           in case subplots n_rows n_cols of
                Inl e \<Rightarrow> \<lparr> raised = Some e, fig_state = None \<rparr>
              | Inr (fig, axes0) \<Rightarrow>
                  (case (if n_rows = 1 then reshape_row axes0 else Inr axes0) of
                     Inl e \<Rightarrow> \<lparr> raised = Some e, fig_state = Some fig \<rparr>
                   | Inr axes \<Rightarrow>
                       (case hist_loop df axes n_cols (enumerate 0 columns) fig of
                          (Some e, fig1) \<Rightarrow> \<lparr> raised = Some e, fig_state = Some fig1 \<rparr>
                        | (None, fig1) \<Rightarrow>
                            (case hide_loop axes n_cols
                                    [length columns..<n_rows * n_cols] fig1 of
                               (r, fig2) \<Rightarrow> \<lparr> raised = r, fig_state = Some fig2 \<rparr>))))"

text \<open>The number of histograms drawn into a figure so far.\<close>

definition histograms_drawn :: "figure option \<Rightarrow> nat" where
  "histograms_drawn f =
     (case f of None \<Rightarrow> 0 | Some fig \<Rightarrow> length (filter (\<lambda>ax. hist ax \<noteq> None) (cells fig)))"

text \<open>The columns that a call plots: the list given, or every numeric column.\<close>

definition selected_columns :: "table \<Rightarrow> string list option \<Rightarrow> string list" where
  "selected_columns df columns_arg =
     (case columns_arg of None \<Rightarrow> map fst (select_numeric df) | Some cs \<Rightarrow> cs)"

text \<open>A table of seven numeric columns of two rows, and a table of one numeric column.\<close>

definition seven_columns :: table where
  "seven_columns = map (\<lambda>name. (name, FloatCol [Some 1, Some 2]))
     [''a'', ''b'', ''c'', ''d'', ''e'', ''f'', ''g'']"

definition one_column :: table where
  "one_column = [(''a'', FloatCol [Some 1, Some 2]), (''label'', ObjCol [Some ''x'', None])]"

text \<open>
  An axes array addresses a figure of \<open>n_cells\<close> subplots correctly when position \<open>i\<close>,
  split into row and column as the loops do, leads to subplot \<open>i\<close>.
\<close>

definition grid_ok :: "axes_ref \<Rightarrow> nat \<Rightarrow> nat \<Rightarrow> bool" where
  "grid_ok axes n_cols n_cells \<longleftrightarrow>
     (\<forall>i < n_cells. axes_item axes (i div n_cols) (i mod n_cols) = Inr i)"

text \<open>A table without a numeric column.\<close>

definition text_only :: table where
  "text_only = [(''label'', ObjCol [Some ''x'', None])]"

section \<open>Formatting\<close>

text \<open>
  Rounding to the nearest integer, ties to the even neighbour: the rounding of Python's
  fixed-point format on the exact value of its argument.
\<close>

definition round_half_even :: "real \<Rightarrow> int" where
  "round_half_even x =
     (let f = \<lfloor>x\<rfloor>; r = x - of_int f
      in if r < 1 / 2 then f else if 1 / 2 < r then f + 1
         else if even f then f else f + 1)"

text \<open>\<open>str\<close> of a non-negative integer.\<close>

function dec :: "nat \<Rightarrow> string" where
  "dec n = (if n < 10 then [''0123456789'' ! n]
            else dec (n div 10) @ [''0123456789'' ! (n mod 10)])"
  by pat_completeness auto
termination
  by (relation "measure id") auto

declare dec.simps [simp del]

definition zero_pad :: "nat \<Rightarrow> string \<Rightarrow> string" where
  "zero_pad w s = replicate (w - length s) CHR ''0'' @ s"

text \<open>
  \<open>format(v, '.df')\<close> for a float \<open>v\<close>: the text \<open>nan\<close> for NaN, otherwise the sign, the
  integer digits, and \<open>d\<close> digits after the point.
\<close>

definition py_fixed :: "nat \<Rightarrow> real option \<Rightarrow> string" where
  "py_fixed d v =
     (case v of
        None \<Rightarrow> ''nan''
      | Some x \<Rightarrow>
          let s = nat (round_half_even (\<bar>x\<bar> * 10 ^ d))
          in (if x < 0 then ''-'' else []) @ dec (s div 10 ^ d) @
             (if d = 0 then [] else ''.'' @ zero_pad d (dec (s mod 10 ^ d))))"

text \<open>A number with at most \<open>d\<close> decimal places.\<close>

definition has_decimals :: "nat \<Rightarrow> real \<Rightarrow> bool" where
  "has_decimals d x \<longleftrightarrow> x * 10 ^ d = of_int \<lfloor>x * 10 ^ d\<rfloor>"

text \<open>\<open>str(df.shape)\<close>: the row count and the column count as a tuple.\<close>

definition shape_str :: "table \<Rightarrow> string" where
  "shape_str df = ''('' @ dec (len_df df) @ '', '' @ dec (length df) @ '')''"

text \<open>\<open>str(dtype)\<close> of a column.\<close>

fun dtype_name :: "column \<Rightarrow> string" where
  "dtype_name (IntCol _) = ''int64''"
| "dtype_name (FloatCol _) = ''float64''"
| "dtype_name (ObjCol _) = ''object''"

text \<open>
  The missing percentage \<open>(missing / len(df)) * 100\<close> as an idealised real, which is what
  the frame of the explorer holds in this model.  The numerator is a numpy integer, so a
  frame without rows gives NaN (zero by zero) and no exception.
\<close>

definition percent :: "nat \<Rightarrow> nat \<Rightarrow> real option" where
  "percent missing n = (if n = 0 then None else Some (real missing / real n * 100))"

text \<open>
  Double arithmetic.  \<open>binade k x\<close> is the binary exponent of a positive \<open>x\<close>: the \<open>e\<close> with
  \<open>2 ^ e \<le> x < 2 ^ (e + 1)\<close>, found by halving or doubling at most \<open>k\<close> times.
\<close>

fun binade :: "nat \<Rightarrow> real \<Rightarrow> int" where
  "binade 0 x = 0"
| "binade (Suc k) x =
     (if 2 \<le> x then binade k (x / 2) + 1
      else if x < 1 then binade k (x * 2) - 1
      else 0)"

text \<open>
  The double nearest to a real: 53 significant bits, ties to the even significand.  The
  2100 steps reach the exponent of every finite double; overflow and subnormal numbers
  are not modelled, and neither arises from the 64-bit counts that the report divides.
\<close>

definition f64 :: "real \<Rightarrow> real" where
  "f64 x =
     (if x = 0 then 0
      else let e = binade 2100 \<bar>x\<bar>; ulp = 2 powi (e - 52)
           in sgn x * of_int (round_half_even (\<bar>x\<bar> / ulp)) * ulp)"

text \<open>
  Lines 151 and 152 in double arithmetic: both integers become doubles, the quotient is
  rounded, and so is its product with 100.
\<close>

definition percent_f64 :: "nat \<Rightarrow> nat \<Rightarrow> real" where
  "percent_f64 missing n = f64 (f64 (f64 (real missing) / f64 (real n)) * 100)"

definition missing_pct :: "nat \<Rightarrow> nat \<Rightarrow> real option" where
  "missing_pct missing n = (if n = 0 then None else Some (percent_f64 missing n))"

text \<open>
  The footprint in mebibytes, \<open>df.memory_usage(deep=True).sum() / 1024**2\<close>, as a double.
  The byte count is computed by the table library and is the parameter \<open>mem\<close>.
\<close>

definition memory_mb :: "(table \<Rightarrow> nat) \<Rightarrow> table \<Rightarrow> real" where
  "memory_mb mem df = f64 (f64 (real (mem df)) / f64 (1024\<^sup>2))"

text \<open>The number that a string of decimal digits denotes.\<close>

definition digit_value :: "char \<Rightarrow> nat" where
  "digit_value c = of_char c - 48"

definition digits_value :: "string \<Rightarrow> nat" where
  "digits_value s = foldl (\<lambda>a c. a * 10 + digit_value c) 0 s"

text \<open>The literal texts of the explorer and of the report, as UTF-8 bytes.\<close>

definition shape_label :: string where
  "shape_label =
     [CHR 0xE3, CHR 0x83, CHR 0x87, CHR 0xE3, CHR 0x83, CHR 0xBC, CHR 0xE3,
      CHR 0x82, CHR 0xBF, CHR 0xE5, CHR 0xBD, CHR 0xA2, CHR 0xE7, CHR 0x8A,
      CHR 0xB6, CHR 0x3A, CHR 0x20]"

definition memory_label :: string where
  "memory_label =
     [CHR 0xE3, CHR 0x83, CHR 0xA1, CHR 0xE3, CHR 0x83, CHR 0xA2, CHR 0xE3,
      CHR 0x83, CHR 0xAA, CHR 0xE4, CHR 0xBD, CHR 0xBF, CHR 0xE7, CHR 0x94,
      CHR 0xA8, CHR 0xE9, CHR 0x87, CHR 0x8F, CHR 0x3A, CHR 0x20]"

definition missing_label :: string where
  "missing_label =
     [CHR 0x2C, CHR 0x20, CHR 0xE6, CHR 0xAC, CHR 0xA0, CHR 0xE6, CHR 0x90,
      CHR 0x8D, CHR 0xE5, CHR 0x80, CHR 0xA4, CHR 0x3A, CHR 0x20]"

definition report_title :: string where
  "report_title =
     [CHR 0x3D, CHR 0x3D, CHR 0x3D, CHR 0x20, CHR 0xE3, CHR 0x83, CHR 0x87,
      CHR 0xE3, CHR 0x83, CHR 0xBC, CHR 0xE3, CHR 0x82, CHR 0xBF, CHR 0xE3,
      CHR 0x82, CHR 0xB5, CHR 0xE3, CHR 0x83, CHR 0x9E, CHR 0xE3, CHR 0x83,
      CHR 0xAA, CHR 0xE3, CHR 0x83, CHR 0xBC, CHR 0xE3, CHR 0x83, CHR 0xAC,
      CHR 0xE3, CHR 0x83, CHR 0x9D, CHR 0xE3, CHR 0x83, CHR 0xBC, CHR 0xE3,
      CHR 0x83, CHR 0x88, CHR 0x20, CHR 0x3D, CHR 0x3D, CHR 0x3D, CHR 0x0A,
      CHR 0x0A]"

definition columns_header :: string where
  "columns_header =
     [CHR 0x3D, CHR 0x3D, CHR 0x3D, CHR 0x20, CHR 0xE5, CHR 0x88, CHR 0x97,
      CHR 0xE6, CHR 0x83, CHR 0x85, CHR 0xE5, CHR 0xA0, CHR 0xB1, CHR 0x20,
      CHR 0x3D, CHR 0x3D, CHR 0x3D, CHR 0x0A]"

definition stats_header :: string where
  "stats_header =
     [CHR 0x0A, CHR 0x3D, CHR 0x3D, CHR 0x3D, CHR 0x20, CHR 0xE7, CHR 0xB5,
      CHR 0xB1, CHR 0xE8, CHR 0xA8, CHR 0x88, CHR 0xE6, CHR 0x83, CHR 0x85,
      CHR 0xE5, CHR 0xA0, CHR 0xB1, CHR 0x20, CHR 0x3D, CHR 0x3D, CHR 0x3D,
      CHR 0x0A]"

definition corr_header :: string where
  "corr_header =
     [CHR 0x0A, CHR 0x0A, CHR 0x3D, CHR 0x3D, CHR 0x3D, CHR 0x20, CHR 0xE7,
      CHR 0x9B, CHR 0xB8, CHR 0xE9, CHR 0x96, CHR 0xA2, CHR 0xE8, CHR 0xA1,
      CHR 0x8C, CHR 0xE5, CHR 0x88, CHR 0x97, CHR 0x20, CHR 0x3D, CHR 0x3D,
      CHR 0x3D, CHR 0x0A]"

definition saved_label :: string where
  "saved_label =
     [CHR 0xE3, CHR 0x82, CHR 0xB5, CHR 0xE3, CHR 0x83, CHR 0x9E, CHR 0xE3,
      CHR 0x83, CHR 0xAA, CHR 0xE3, CHR 0x83, CHR 0xBC, CHR 0xE3, CHR 0x83,
      CHR 0xAC, CHR 0xE3, CHR 0x83, CHR 0x9D, CHR 0xE3, CHR 0x83, CHR 0xBC,
      CHR 0xE3, CHR 0x83, CHR 0x88, CHR 0xE3, CHR 0x82, CHR 0x92, CHR 0xE4,
      CHR 0xBF, CHR 0x9D, CHR 0xE5, CHR 0xAD, CHR 0x98, CHR 0xE3, CHR 0x81,
      CHR 0x97, CHR 0xE3, CHR 0x81, CHR 0xBE, CHR 0xE3, CHR 0x81, CHR 0x97,
      CHR 0xE3, CHR 0x81, CHR 0x9F, CHR 0x3A, CHR 0x20]"

definition info_title :: string where
  "info_title =
     [CHR 0x0A, CHR 0x3D, CHR 0x3D, CHR 0x3D, CHR 0x20, CHR 0xE5, CHR 0x9F,
      CHR 0xBA, CHR 0xE6, CHR 0x9C, CHR 0xAC, CHR 0xE6, CHR 0x83, CHR 0x85,
      CHR 0xE5, CHR 0xA0, CHR 0xB1, CHR 0x20, CHR 0x3D, CHR 0x3D, CHR 0x3D]"

definition stats_title :: string where
  "stats_title =
     [CHR 0x0A, CHR 0x3D, CHR 0x3D, CHR 0x3D, CHR 0x20, CHR 0xE7, CHR 0xB5,
      CHR 0xB1, CHR 0xE8, CHR 0xA8, CHR 0x88, CHR 0xE6, CHR 0x83, CHR 0x85,
      CHR 0xE5, CHR 0xA0, CHR 0xB1, CHR 0x20, CHR 0x3D, CHR 0x3D, CHR 0x3D]"

definition missing_title :: string where
  "missing_title =
     [CHR 0x0A, CHR 0x3D, CHR 0x3D, CHR 0x3D, CHR 0x20, CHR 0xE6, CHR 0xAC,
      CHR 0xA0, CHR 0xE6, CHR 0x90, CHR 0x8D, CHR 0xE5, CHR 0x80, CHR 0xA4,
      CHR 0x20, CHR 0x3D, CHR 0x3D, CHR 0x3D]"

definition missing_count_label :: string where
  "missing_count_label =
     [CHR 0xE6, CHR 0xAC, CHR 0xA0, CHR 0xE6, CHR 0x90, CHR 0x8D, CHR 0xE6,
      CHR 0x95, CHR 0xB0]"

definition missing_percent_label :: string where
  "missing_percent_label =
     [CHR 0xE6, CHR 0xAC, CHR 0xA0, CHR 0xE6, CHR 0x90, CHR 0x8D, CHR 0xE7,
      CHR 0x8E, CHR 0x87, CHR 0x28, CHR 0x25, CHR 0x29]"

section \<open>Derived frames\<close>

text \<open>
  A frame with row labels: the result of \<open>describe\<close>, of \<open>corr\<close> and the missing-value frame
  of the explorer.
\<close>

record frame =
  row_labels :: "string list"
  frame_cols :: table

text \<open>Selecting the entries of a list by a boolean mask.\<close>

definition by_mask :: "bool list \<Rightarrow> 'a list \<Rightarrow> 'a list" where
  "by_mask keep xs = map snd (filter fst (zip keep xs))"

fun column_by_mask :: "bool list \<Rightarrow> column \<Rightarrow> column" where
  "column_by_mask keep (IntCol xs) = IntCol (by_mask keep xs)"
| "column_by_mask keep (FloatCol xs) = FloatCol (by_mask keep xs)"
| "column_by_mask keep (ObjCol xs) = ObjCol (by_mask keep xs)"

text \<open>\<open>frame[mask]\<close>: the rows of a frame at which the mask holds.\<close>

definition frame_by_mask :: "bool list \<Rightarrow> frame \<Rightarrow> frame" where
  "frame_by_mask keep fr =
     \<lparr> row_labels = by_mask keep (row_labels fr),
       frame_cols = map (\<lambda>(name, c). (name, column_by_mask keep c)) (frame_cols fr) \<rparr>"

text \<open>The non-missing entries of a numeric column.\<close>

fun present :: "real option list \<Rightarrow> real list" where
  "present [] = []"
| "present (None # xs) = present xs"
| "present (Some v # xs) = v # present xs"

text \<open>
  Modelled from the spec: \<open>DataFrame.describe\<close> belongs to the table library.  Section 3
  of the specification gives its content: per numeric column the count, mean, standard
  deviation, minimum, 25th, 50th and 75th percentile and maximum, over the non-missing
  values.  The standard deviation is the sample one, a percentile interpolates linearly
  between the two nearest ranks, and a statistic that does not exist is NaN.
\<close>

definition quantile :: "real list \<Rightarrow> real \<Rightarrow> real option" where
  "quantile s q =
     (if s = [] then None
      else let h = real (length s - 1) * q;
               lo = nat \<lfloor>h\<rfloor>;
               hi = min (lo + 1) (length s - 1)
           in Some (s ! lo + (h - real lo) * (s ! hi - s ! lo)))"

text \<open>
  Modelled from the spec: the standard deviation of section 3, over the non-missing
  values; it does not exist for fewer than two values.
\<close>

definition sample_std :: "real list \<Rightarrow> real option" where
  "sample_std vs =
     (if length vs < 2 then None
      else Some (sqrt (sum_list (map (\<lambda>v. (v - mean vs)\<^sup>2) vs) / real (length vs - 1))))"

text \<open>
  Modelled from the spec: the eight statistics of one numeric column, in the order in
  which section 3 lists them, with the minimum before the percentiles.
\<close>

definition col_stats :: "column \<Rightarrow> real option list" where
  "col_stats c =
     (let vs = present (numbers c); s = sort vs
      in [Some (real (length vs)),
          (if vs = [] then None else Some (mean vs)),
          sample_std vs,
          (if vs = [] then None else Some (hd s)),
          quantile s (1 / 4),
          quantile s (1 / 2),
          quantile s (3 / 4),
          (if vs = [] then None else Some (last s))])"

text \<open>
  Modelled from the spec: the result of \<open>describe\<close>.  It is the numeric summary, one column
  of statistics per numeric column in table order, or, for a frame without a numeric
  column, the summary of its object columns (count, unique, top, freq), which is kept as
  the columns it summarises.  A frame without columns cannot be described.
\<close>

datatype summary =
    Numeric_summary frame
  | Object_summary table

definition describe_df :: "table \<Rightarrow> py_error + summary" where
  "describe_df df =
     (if df = [] then Inl (ValueError ''Cannot describe a DataFrame without columns'')
      else if select_numeric df = [] then Inr (Object_summary df)
      else Inr (Numeric_summary
             \<lparr> row_labels = [''count'', ''mean'', ''std'', ''min'', ''25%'', ''50%'', ''75%'', ''max''],
               frame_cols = map (\<lambda>(name, c). (name, FloatCol (col_stats c))) (select_numeric df) \<rparr>))"

text \<open>The pairs of values of two columns in the rows in which both are present.\<close>

fun both_present :: "real option list \<Rightarrow> real option list \<Rightarrow> (real \<times> real) list" where
  "both_present (Some x # xs) (Some y # ys) = (x, y) # both_present xs ys"
| "both_present (_ # xs) (_ # ys) = both_present xs ys"
| "both_present _ _ = []"

text \<open>
  Modelled from the spec: \<open>DataFrame.corr\<close> belongs to the table library.  The glossary
  of the specification defines the matrix: the pairwise linear-correlation coefficients
  among the numeric columns.  The coefficient of two columns is taken over the rows in
  which both are present, and it is NaN when there is no such row or when one of the two
  has no spread there (the quotient is zero by zero).
\<close>

definition pearson :: "real option list \<Rightarrow> real option list \<Rightarrow> real option" where
  "pearson xs ys =
     (let ps = both_present xs ys;
          mx = mean (map fst ps);
          my = mean (map snd ps);
          sxy = sum_list (map (\<lambda>(x, y). (x - mx) * (y - my)) ps);
          sxx = sum_list (map (\<lambda>(x, y). (x - mx)\<^sup>2) ps);
          syy = sum_list (map (\<lambda>(x, y). (y - my)\<^sup>2) ps);
          divisor = sqrt (sxx * syy)
      in if ps = [] \<or> divisor = 0 then None else Some (sxy / divisor))"

text \<open>
  Modelled from the spec: the correlation matrix of a frame of numeric columns, indexed
  in rows and in columns by the column names in their table order (section 3).
\<close>

definition corr :: "table \<Rightarrow> frame" where
  "corr df =
     \<lparr> row_labels = map fst df,
       frame_cols = map (\<lambda>(name_j, c_j).
                (name_j, FloatCol (map (\<lambda>(name_i, c_i). pearson (numbers c_i) (numbers c_j)) df)))
              df \<rparr>"

text \<open>The entry of a frame in row \<open>i\<close> and column \<open>j\<close>, when both exist and it is a float.\<close>

definition frame_entry :: "frame \<Rightarrow> nat \<Rightarrow> nat \<Rightarrow> real option option" where
  "frame_entry fr i j =
     (if j < length (frame_cols fr) then
        (case snd (frame_cols fr ! j) of
           FloatCol xs \<Rightarrow> (if i < length xs then Some (xs ! i) else None)
         | _ \<Rightarrow> None)
      else None)"

section \<open>Explorer (\<open>utils.explore_data\<close>)\<close>

text \<open>
  One piece of output: literal text (including what Python's own formatting produced), or
  a value handed to the table library for rendering, by \<open>to_string\<close> or by \<open>print\<close>.
\<close>

datatype piece =
    Lit string
  | Frame_str frame
  | Frame_repr frame
  | Summary_str summary
  | Summary_repr summary
  | Info_output table

text \<open>
  Lines 59 to 64: the frame of missing counts and percentages, one row per column of
  the table.
\<close>

definition missing_df :: "table \<Rightarrow> frame" where
  "missing_df df =
     \<lparr> row_labels = map fst df,
       frame_cols = [(missing_count_label, IntCol (map (\<lambda>(name, c). int (isnull_sum c)) df)),
               (missing_percent_label,
                FloatCol (map (\<lambda>(name, c). percent (isnull_sum c) (len_df df)) df))] \<rparr>"

text \<open>Line 65: the rows of that frame whose missing count is positive.\<close>

definition missing_shown :: "table \<Rightarrow> frame" where
  "missing_shown df =
     frame_by_mask (map (\<lambda>(name, c). 0 < int (isnull_sum c)) df) (missing_df df)"

text \<open>
  The result of a call of the explorer: what was printed, one piece per \<open>print\<close>, and the
  exception that ended the call, if any.  The byte footprint \<open>df.memory_usage(deep=True).sum()\<close>
  is computed by the table library and is the parameter \<open>mem\<close>.
\<close>

record explore_run =
  printed :: "piece list"
  explore_raised :: "py_error option"

definition explore_data :: "(table \<Rightarrow> nat) \<Rightarrow> table \<Rightarrow> bool \<Rightarrow> bool \<Rightarrow> explore_run" where
  "explore_data mem df show_info show_stats =
     (let out1 = [Lit (shape_label @ shape_str df),
                  Lit (memory_label @ py_fixed 2 (Some (memory_mb mem df)) @ '' MB'')];
          out2 = out1 @ (if show_info then [Lit info_title, Info_output df, Lit ''None''] else []);
          tail = [Lit missing_title, Frame_repr (missing_shown df)]
      in if show_stats then
           (case describe_df df of
              Inl e \<Rightarrow> \<lparr> printed = out2 @ [Lit stats_title], explore_raised = Some e \<rparr>
            | Inr s \<Rightarrow>
                \<lparr> printed = out2 @ [Lit stats_title, Summary_repr s] @ tail,
                  explore_raised = None \<rparr>)
         else \<lparr> printed = out2 @ tail, explore_raised = None \<rparr>)"

section \<open>Report builder (\<open>utils.create_summary_report\<close>)\<close>

text \<open>Line 153: the line of one column in the column listing.\<close>

definition column_line :: "table \<Rightarrow> string \<times> column \<Rightarrow> piece" where
  "column_line df = (\<lambda>(col, c).
     Lit (col @ '': '' @ dtype_name c @ missing_label @ dec (isnull_sum c) @ '' ('' @
          py_fixed 1 (missing_pct (isnull_sum c) (len_df df)) @ ''%)'' @ [CHR 0x0A]))"

text \<open>
  The result of a call of the report builder: the writes to the file in order, the
  exception that ended the call, if any, and what was printed.  Whether the file can be
  opened for writing is the parameter \<open>opened\<close>.
\<close>

record report_run =
  written :: "piece list"
  report_raised :: "py_error option"
  report_printed :: "piece list"

definition create_summary_report ::
  "(table \<Rightarrow> nat) \<Rightarrow> bool \<Rightarrow> table \<Rightarrow> string \<Rightarrow> report_run" where
  "create_summary_report mem opened df output_file =
     (if \<not> opened then \<lparr> written = [], report_raised = Some OSError, report_printed = [] \<rparr>
      else
        let w1 = [Lit report_title,
                  Lit (shape_label @ shape_str df @ [CHR 0x0A]),
                  Lit (memory_label @ py_fixed 2 (Some (memory_mb mem df)) @
                       '' MB'' @ [CHR 0x0A, CHR 0x0A]),
                  Lit columns_header]
                 @ map (column_line df) df
                 @ [Lit stats_header]
        in case describe_df df of
             Inl e \<Rightarrow> \<lparr> written = w1, report_raised = Some e, report_printed = [] \<rparr>
           | Inr s \<Rightarrow>
               let w2 = w1 @ [Summary_str s, Lit corr_header];
                   numeric_cols = select_numeric df
               in \<lparr> written = w2 @ (if 1 < length numeric_cols
                                     then [Frame_str (corr numeric_cols)] else []),
                    report_raised = None,
                    report_printed = [Lit (saved_label @ output_file)] \<rparr>)"

text \<open>The values of the statistics table that a report hands to the library for rendering.\<close>

fun stats_values :: "piece \<Rightarrow> real list" where
  "stats_values (Summary_str (Numeric_summary fr)) =
     concat (map (\<lambda>(name, c). present (numbers c)) (frame_cols fr))"
| "stats_values _ = []"

text \<open>Example tables.\<close>

definition thirds :: table where
  "thirds = [(''v'', FloatCol [Some 0, Some 0, Some 1]), (''w'', FloatCol [Some 5, None, Some 7])]"

definition ten_rows :: table where
  "ten_rows =
     [(''id'', IntCol [1, 2, 3, 4, 5, 6, 7, 8, 9, 10]),
      (''score'', FloatCol [Some 1, None, Some 3, Some 4, None, Some 6, Some 7, Some 8,
                            Some 9, Some 10]),
      (''tag'', ObjCol [Some ''a'', Some ''b'', Some ''a'', Some ''b'', Some ''a'', Some ''b'',
                        Some ''a'', Some ''b'', Some ''a'', Some ''b''])]"

definition eighty_rows :: table where
  "eighty_rows = [(''x'', FloatCol (replicate 23 None @ replicate 57 (Some 1)))]"

definition flat_and_rising :: table where
  "flat_and_rising = [(''flat'', FloatCol [Some 1, Some 1]), (''rising'', FloatCol [Some 1, Some 2])]"

text \<open>A numeric column has spread when two of its present values differ.\<close>

definition has_spread :: "real option list \<Rightarrow> bool" where
  "has_spread xs \<longleftrightarrow> (\<exists>a \<in> set (present xs). \<exists>b \<in> set (present xs). a \<noteq> b)"

subsection \<open>Facts about \<open>endswith\<close>\<close>

lemma endswith_iff_append: "endswith s suf \<longleftrightarrow> (\<exists>pre. s = pre @ suf)"
proof
  assume "endswith s suf"
  then have "s = take (length s - length suf) s @ suf"
    by (metis append_take_drop_id endswith_def)
  then show "\<exists>pre. s = pre @ suf" ..
next
  assume "\<exists>pre. s = pre @ suf"
  then show "endswith s suf"
    by (auto simp: endswith_def)
qed

lemma endswith_last:
  assumes "endswith s suf" and "suf \<noteq> []"
  shows "last s = last suf"
  using assms by (auto simp: endswith_iff_append)

text \<open>
  claim C5.  The loader dispatches on the end of the path alone: a path ending in
  \<open>.csv\<close> is handed to the delimited-text parser, one ending in \<open>.xlsx\<close> or \<open>.xls\<close> to the
  spreadsheet parser, one ending in \<open>.json\<close> to the structured-record parser, each with the
  path and the keyword arguments unchanged; every other path raises the unsupported-format
  error, whose message ends with the path.
\<close>

theorem load_data_dispatch:
  "(endswith p ''.csv'' \<longrightarrow> load_data pd p kw = read_csv pd p kw) \<and>
   (endswith p ''.xlsx'' \<or> endswith p ''.xls'' \<longrightarrow> load_data pd p kw = read_excel pd p kw) \<and>
   (endswith p ''.json'' \<longrightarrow> load_data pd p kw = read_json pd p kw) \<and>
   (\<not> endswith p ''.csv'' \<and> \<not> endswith p ''.xlsx'' \<and> \<not> endswith p ''.xls'' \<and>
    \<not> endswith p ''.json'' \<longrightarrow>
      load_data pd p kw = Inl (ValueError (''Unsupported file format: '' @ p)))"
proof (intro conjI impI)
  assume "endswith p ''.csv''"
  then show "load_data pd p kw = read_csv pd p kw"
    by (simp add: load_data_def)
next
  assume x: "endswith p ''.xlsx'' \<or> endswith p ''.xls''"
  then have "last p = CHR ''x'' \<or> last p = CHR ''s''"
    by (auto dest: endswith_last)
  then have "\<not> endswith p ''.csv''"
    by (auto dest: endswith_last)
  with x show "load_data pd p kw = read_excel pd p kw"
    by (simp add: load_data_def)
next
  assume j: "endswith p ''.json''"
  then have "last p = CHR ''n''"
    by (auto dest: endswith_last)
  then have "\<not> endswith p ''.csv''" "\<not> endswith p ''.xlsx''" "\<not> endswith p ''.xls''"
    by (auto dest: endswith_last)
  with j show "load_data pd p kw = read_json pd p kw"
    by (simp add: load_data_def)
next
  assume "\<not> endswith p ''.csv'' \<and> \<not> endswith p ''.xlsx'' \<and> \<not> endswith p ''.xls'' \<and>
    \<not> endswith p ''.json''"
  then show "load_data pd p kw = Inl (ValueError (''Unsupported file format: '' @ p))"
    by (simp add: load_data_def)
qed

theorem load_data_dispatch_witness:
  "load_data recording_parsers ''data/sample_data.csv'' [(''sep'', '','')]
     = Inr (Csv_call ''data/sample_data.csv'' [(''sep'', '','')]) \<and>
   load_data recording_parsers ''book.xlsx'' [(''sheet_name'', ''a'')]
     = Inr (Excel_call ''book.xlsx'' [(''sheet_name'', ''a'')]) \<and>
   load_data recording_parsers ''old.xls'' ([] :: (string \<times> string) list)
     = Inr (Excel_call ''old.xls'' []) \<and>
   load_data recording_parsers ''rows.json'' ([] :: (string \<times> string) list)
     = Inr (Json_call ''rows.json'' []) \<and>
   load_data recording_parsers ''notes.txt'' ([] :: (string \<times> string) list)
     = Inl (ValueError ''Unsupported file format: notes.txt'')"
  using load_data_dispatch [of "''data/sample_data.csv''" recording_parsers "[(''sep'', '','')]"]
    load_data_dispatch [of "''book.xlsx''" recording_parsers "[(''sheet_name'', ''a'')]"]
    load_data_dispatch [of "''old.xls''" recording_parsers "[] :: (string \<times> string) list"]
    load_data_dispatch [of "''rows.json''" recording_parsers "[] :: (string \<times> string) list"]
    load_data_dispatch [of "''notes.txt''" recording_parsers "[] :: (string \<times> string) list"]
  by (simp add: endswith_def recording_parsers_def)


section \<open>Properties of the sample data generator\<close>

lemma income_closed:
  "income (add_correlation (draw_arrays d)) =
     map (\<lambda>i. normal_income d i + normal_age d i * 50000 + exponential_tenure d i * 100000)
       [0..<n_samples]"
  by (simp add: add_correlation_def draw_arrays_def arr_add_def arr_scale_def Let_def
      zip_map_map zip_same_conv_map)

lemma satisfaction_closed:
  "satisfaction (add_correlation (draw_arrays d)) =
     map (\<lambda>i. uniform_satisfaction d i +
          (normal_income d i + normal_age d i * 50000 + exponential_tenure d i * 100000
             - 5000000) / 1000000)
       [0..<n_samples]"
  by (simp add: add_correlation_def draw_arrays_def arr_add_def arr_scale_def arr_shift_def
      arr_div_def Let_def zip_map_map zip_same_conv_map)

lemma age_closed: "age (add_correlation (draw_arrays d)) = map (normal_age d) [0..<n_samples]"
  by (simp add: add_correlation_def draw_arrays_def Let_def)

lemma tenure_closed:
  "tenure (add_correlation (draw_arrays d)) = map (exponential_tenure d) [0..<n_samples]"
  by (simp add: add_correlation_def draw_arrays_def Let_def)

lemma clip_bounds:
  "lower \<le> upper \<Longrightarrow> lower \<le> clip lower upper x \<and> clip lower upper x \<le> upper"
  by (simp add: clip_def)

lemmas col_defs = col_age_def col_income_def col_tenure_def col_satisfaction_def
  col_department_def col_gender_def

lemma float_at_age:
  "i < n_samples \<Longrightarrow>
     float_at (create_sample_data d) col_age i = Some (clip 20 65 (normal_age d i))"
  by (simp add: create_sample_data_def float_at_def Let_def age_closed col_defs)

lemma float_at_income:
  "i < n_samples \<Longrightarrow>
     float_at (create_sample_data d) col_income i =
       Some (clip 2000000 15000000
         (normal_income d i + normal_age d i * 50000 + exponential_tenure d i * 100000))"
  by (simp add: create_sample_data_def float_at_def Let_def income_closed col_defs)

lemma float_at_tenure:
  "i < n_samples \<Longrightarrow>
     float_at (create_sample_data d) col_tenure i = Some (clip 0 30 (exponential_tenure d i))"
  by (simp add: create_sample_data_def float_at_def Let_def tenure_closed col_defs)

lemma float_at_satisfaction:
  "i < n_samples \<Longrightarrow>
     float_at (create_sample_data d) col_satisfaction i =
       Some (clip 1 10 (uniform_satisfaction d i +
          (normal_income d i + normal_age d i * 50000 + exponential_tenure d i * 100000
             - 5000000) / 1000000))"
  by (simp add: create_sample_data_def float_at_def Let_def satisfaction_closed col_defs)

lemma len_sample: "len_df (create_sample_data d) = n_samples"
  by (simp add: create_sample_data_def Let_def age_closed)

text \<open>
  claim C9.  The table returned by the generator has \<open>n_samples\<close> rows, and in every row
  the age lies in [20, 65], the income in [2000000, 15000000], the tenure in [0, 30] and
  the satisfaction in [1, 10], whatever the random draws were.
\<close>

theorem sample_within_bounds:
  "len_df (create_sample_data d) = n_samples \<and>
   (\<forall>i < len_df (create_sample_data d). \<exists>a y t s.
      float_at (create_sample_data d) col_age i = Some a \<and> 20 \<le> a \<and> a \<le> 65 \<and>
      float_at (create_sample_data d) col_income i = Some y \<and>
        2000000 \<le> y \<and> y \<le> 15000000 \<and>
      float_at (create_sample_data d) col_tenure i = Some t \<and> 0 \<le> t \<and> t \<le> 30 \<and>
      float_at (create_sample_data d) col_satisfaction i = Some s \<and> 1 \<le> s \<and> s \<le> 10)"
  by (simp add: len_sample float_at_age float_at_income float_at_tenure float_at_satisfaction
      clip_bounds)

theorem sample_within_bounds_witness:
  "(0::nat) < len_df (create_sample_data wild_draws) \<and>
   float_at (create_sample_data wild_draws) col_age 0 = Some 20 \<and>
   float_at (create_sample_data wild_draws) col_income 0 = Some 15000000 \<and>
   float_at (create_sample_data wild_draws) col_tenure 0 = Some 30 \<and>
   float_at (create_sample_data wild_draws) col_satisfaction 0 = Some 10"
  using sample_within_bounds [of wild_draws]
  by (simp add: n_samples_def float_at_age float_at_income float_at_tenure float_at_satisfaction
      wild_draws_def clip_def)

text \<open>
  claim C4 (as amended).  Before clipping, the income array is the base income draw plus
  50000 times the age draw plus 100000 times the tenure draw, and the satisfaction array
  is the raw uniform draw plus one millionth of the difference between the row's derived
  income and the fixed constant 5000000; the table's income and satisfaction columns are
  these arrays clipped.
\<close>

theorem derived_columns:
  assumes "i < n_samples"
  shows "income (add_correlation (draw_arrays d)) ! i =
           normal_income d i + normal_age d i * 50000 + exponential_tenure d i * 100000 \<and>
         satisfaction (add_correlation (draw_arrays d)) ! i =
           uniform_satisfaction d i +
             (income (add_correlation (draw_arrays d)) ! i - 5000000) / 1000000 \<and>
         float_at (create_sample_data d) col_income i =
           Some (clip 2000000 15000000 (income (add_correlation (draw_arrays d)) ! i)) \<and>
         float_at (create_sample_data d) col_satisfaction i =
           Some (clip 1 10 (satisfaction (add_correlation (draw_arrays d)) ! i))"
  using assms
  by (simp add: income_closed satisfaction_closed float_at_income float_at_satisfaction)

theorem derived_columns_witness:
  "(0::nat) < n_samples \<and>
   income (add_correlation (draw_arrays flat_draws)) ! 0 = 6500000 \<and>
   satisfaction (add_correlation (draw_arrays flat_draws)) ! 0 = 7 / 2 \<and>
   float_at (create_sample_data flat_draws) col_income 0 = Some 6500000 \<and>
   float_at (create_sample_data flat_draws) col_satisfaction 0 = Some (7 / 2)"
  using derived_columns [of 0 flat_draws]
  by (simp add: n_samples_def flat_draws_def clip_def)

lemma flat_income:
  "income (add_correlation (draw_arrays flat_draws)) = replicate n_samples 6500000"
  by (simp add: income_closed flat_draws_def map_replicate_const)

lemma flat_mean: "mean (income (add_correlation (draw_arrays flat_draws))) = 6500000"
  by (simp add: flat_income mean_def sum_list_replicate n_samples_def)

text \<open>
  claim C4 as stated fails.  When every row draws age 30, base income 5000000, tenure 0 and
  raw satisfaction 2, every derived income is 6500000 and so is the mean of the income
  array: each row's deviation from the income mean is 0, yet the satisfaction is 3.5 and
  not the raw draw 2.  No factor of proportionality makes the claim true.
\<close>

theorem satisfaction_not_mean_deviation:
  "\<not> (\<exists>k. \<forall>i < n_samples.
        satisfaction (add_correlation (draw_arrays flat_draws)) ! i =
          uniform_satisfaction flat_draws i +
            k * (income (add_correlation (draw_arrays flat_draws)) ! i
                   - mean (income (add_correlation (draw_arrays flat_draws)))))"
proof
  assume "\<exists>k. \<forall>i < n_samples.
        satisfaction (add_correlation (draw_arrays flat_draws)) ! i =
          uniform_satisfaction flat_draws i +
            k * (income (add_correlation (draw_arrays flat_draws)) ! i
                   - mean (income (add_correlation (draw_arrays flat_draws))))"
  then obtain k where k: "\<forall>i < n_samples.
        satisfaction (add_correlation (draw_arrays flat_draws)) ! i =
          uniform_satisfaction flat_draws i +
            k * (income (add_correlation (draw_arrays flat_draws)) ! i
                   - mean (income (add_correlation (draw_arrays flat_draws))))" ..
  have "(0::nat) < n_samples" by (simp add: n_samples_def)
  with k have "satisfaction (add_correlation (draw_arrays flat_draws)) ! 0 =
          uniform_satisfaction flat_draws 0 +
            k * (income (add_correlation (draw_arrays flat_draws)) ! 0
                   - mean (income (add_correlation (draw_arrays flat_draws))))" by blast
  moreover have "satisfaction (add_correlation (draw_arrays flat_draws)) ! 0 = 7 / 2"
    by (simp add: satisfaction_closed flat_draws_def n_samples_def)
  moreover have "income (add_correlation (draw_arrays flat_draws)) ! 0 = 6500000"
    by (simp add: flat_income n_samples_def)
  moreover have "uniform_satisfaction flat_draws 0 = 2"
    by (simp add: flat_draws_def)
  ultimately show False
    by (simp add: flat_mean)
qed


section \<open>Properties of the distribution histograms\<close>

lemma plot_no_columns:
  assumes "selected_columns df ca = []"
  shows "plot_distributions df ca = \<lparr> raised = Some ZeroDivisionError, fig_state = None \<rparr>"
  using assms by (simp add: plot_distributions_def selected_columns_def)

lemma plot_single_column:
  assumes "selected_columns df ca = [c]"
  shows "plot_distributions df ca =
    \<lparr> raised = Some AttributeError,
      fig_state = Some \<lparr> nrows = 1, ncols = 1, cells = [blank_cell] \<rparr> \<rparr>"
  using assms by (simp add: plot_distributions_def selected_columns_def subplots_def)

text \<open>
  claim C10.  When the selected column list is empty or has one entry, the call ends in
  an exception and no histogram has been drawn; so a call that completes has selected at
  least two columns.
\<close>

theorem few_columns_raise:
  "(length (selected_columns df ca) \<le> 1 \<longrightarrow>
      raised (plot_distributions df ca) \<noteq> None \<and>
      histograms_drawn (fig_state (plot_distributions df ca)) = 0) \<and>
   (raised (plot_distributions df ca) = None \<longrightarrow> 2 \<le> length (selected_columns df ca))"
proof -
  have a: "raised (plot_distributions df ca) \<noteq> None \<and>
      histograms_drawn (fig_state (plot_distributions df ca)) = 0"
    if "length (selected_columns df ca) \<le> 1"
  proof (cases "selected_columns df ca")
    case Nil
    then show ?thesis
      by (simp add: plot_no_columns histograms_drawn_def)
  next
    case (Cons c cs)
    with that have "selected_columns df ca = [c]" by simp
    then show ?thesis
      by (simp add: plot_single_column histograms_drawn_def blank_cell_def)
  qed
  then show ?thesis
    by (metis not_less_eq_eq numeral_2_eq_2 One_nat_def)
qed

lemma hist_loop_fills:
  assumes "grid_ok axes n_cols n_cells"
    and "length pre + length cols \<le> n_cells"
    and "set cols \<subseteq> fst ` set df"
    and "length pre + m = n_cells" and "length cols \<le> m"
  shows "hist_loop df axes n_cols (enumerate (length pre) cols)
           (fig\<lparr>cells := pre @ replicate m blank_cell\<rparr>) =
         (None, fig\<lparr>cells := pre @ map (\<lambda>c. draw_hist c blank_cell) cols
                                 @ replicate (m - length cols) blank_cell\<rparr>)"
  using assms
proof (induction cols arbitrary: pre m)
  case Nil
  then show ?case by simp
next
  case (Cons c cols)
  from Cons.prems obtain m' where m: "m = Suc m'" by (cases m) auto
  have item: "axes_item axes (length pre div n_cols) (length pre mod n_cols) = Inr (length pre)"
    using Cons.prems by (simp add: grid_ok_def)
  from Cons.prems obtain series where look: "map_of df c = Some series"
    by (metis list.set_intros(1) subsetD map_of_eq_None_iff not_Some_eq)
  have step: "(pre @ replicate m blank_cell)[length pre := draw_hist c blank_cell]
     = (pre @ [draw_hist c blank_cell]) @ replicate m' blank_cell"
    by (simp add: m list_update_append)
  have "hist_loop df axes n_cols (enumerate (length (pre @ [draw_hist c blank_cell])) cols)
           (fig\<lparr>cells := (pre @ [draw_hist c blank_cell]) @ replicate m' blank_cell\<rparr>) =
         (None, fig\<lparr>cells := (pre @ [draw_hist c blank_cell])
                  @ map (\<lambda>c. draw_hist c blank_cell) cols
                  @ replicate (m' - length cols) blank_cell\<rparr>)"
    using Cons.prems m by (intro Cons.IH) auto
  then show ?case
    using item look step by (simp add: m nth_append)
qed

lemma hide_loop_hides:
  assumes "grid_ok axes n_cols n_cells"
    and "length pre + m = n_cells"
  shows "hide_loop axes n_cols [length pre..<length pre + m]
           (fig\<lparr>cells := pre @ replicate m blank_cell\<rparr>) =
         (None, fig\<lparr>cells := pre @ replicate m (blank_cell\<lparr>visible := False\<rparr>)\<rparr>)"
  using assms
proof (induction m arbitrary: pre)
  case 0
  then show ?case by simp
next
  case (Suc m)
  let ?h = "blank_cell\<lparr>visible := False\<rparr>"
  have item: "axes_item axes (length pre div n_cols) (length pre mod n_cols) = Inr (length pre)"
    using Suc.prems by (simp add: grid_ok_def)
  have l: "[length pre..<length pre + Suc m]
             = length pre # [Suc (length pre)..<Suc (length pre) + m]"
    by (simp add: upt_conv_Cons del: upt_Suc)
  have "length (pre @ [?h]) + m = n_cells"
    using Suc.prems by simp
  from Suc.IH [OF Suc.prems(1) this]
  have ih: "hide_loop axes n_cols [Suc (length pre)..<Suc (length pre) + m]
           (fig\<lparr>cells := pre @ ?h # replicate m blank_cell\<rparr>) =
         (None, fig\<lparr>cells := pre @ ?h # replicate m ?h\<rparr>)"
    by (simp del: upt_Suc)
  show ?case
    unfolding l using item ih by (simp add: nth_append list_update_append del: upt_Suc)
qed

lemma grid_ok_row: "grid_ok (Arr2 [[0..<n]]) n n"
  by (simp add: grid_ok_def)

lemma grid_ok_grid:
  "0 < n_cols \<Longrightarrow>
   grid_ok (Arr2 (map (\<lambda>r. map (\<lambda>c. r * n_cols + c) [0..<n_cols]) [0..<n_rows]))
     n_cols (n_rows * n_cols)"
  by (simp add: grid_ok_def less_mult_imp_div_less)

lemma hist_loop_all:
  assumes ok: "grid_ok axes n_cols n_cells"
    and len: "length cols \<le> n_cells"
    and ex: "set cols \<subseteq> fst ` set df"
  shows "hist_loop df axes n_cols (enumerate 0 cols)
           \<lparr> nrows = r, ncols = c, cells = replicate n_cells blank_cell \<rparr> =
         (None, \<lparr> nrows = r, ncols = c,
                  cells = map (\<lambda>c. draw_hist c blank_cell) cols @
                          replicate (n_cells - length cols) blank_cell \<rparr>)"
  using hist_loop_fills [OF ok, of "[]" cols df n_cells
      "\<lparr> nrows = r, ncols = c, cells = [] \<rparr>"] len ex
  by simp

lemma hide_loop_rest:
  assumes ok: "grid_ok axes n_cols n_cells"
    and len: "length cols \<le> n_cells"
  shows "hide_loop axes n_cols [length cols..<n_cells]
           \<lparr> nrows = r, ncols = c,
             cells = map (\<lambda>c. draw_hist c blank_cell) cols @
                     replicate (n_cells - length cols) blank_cell \<rparr> =
         (None, \<lparr> nrows = r, ncols = c,
                  cells = map (\<lambda>c. draw_hist c blank_cell) cols @
                          replicate (n_cells - length cols)
                            (blank_cell\<lparr>visible := False\<rparr>) \<rparr>)"
  using hide_loop_hides [OF ok, of "map (\<lambda>c. draw_hist c blank_cell) cols"
      "n_cells - length cols" "\<lparr> nrows = r, ncols = c, cells = [] \<rparr>"] len
  by simp

text \<open>
  The layout for two or more selected columns that all exist in the table: the call
  completes; the grid has \<open>(n + 2) div 3\<close> rows (the ceiling of \<open>n / 3\<close>) and \<open>min 3 n\<close>
  columns; subplot \<open>i\<close> holds the histogram of column \<open>i\<close> with 30 bins and opacity 0.7;
  the subplots after the \<open>n\<close>-th are hidden.
\<close>

lemma plot_layout:
  assumes n2: "2 \<le> length (selected_columns df ca)"
    and ex: "set (selected_columns df ca) \<subseteq> fst ` set df"
  shows "plot_distributions df ca =
     \<lparr> raised = None,
       fig_state = Some
         \<lparr> nrows = (length (selected_columns df ca) + 2) div 3,
           ncols = min 3 (length (selected_columns df ca)),
           cells = map (\<lambda>c. draw_hist c blank_cell) (selected_columns df ca) @
             replicate ((length (selected_columns df ca) + 2) div 3 *
                          min 3 (length (selected_columns df ca))
                        - length (selected_columns df ca))
               (blank_cell\<lparr>visible := False\<rparr>) \<rparr> \<rparr>"
proof -
  define cols where "cols = selected_columns df ca"
  define n where "n = length cols"
  have cols: "(case ca of None \<Rightarrow> map fst (select_numeric df) | Some cs \<Rightarrow> cs) = cols"
    by (simp add: cols_def selected_columns_def)
  have ex': "set cols \<subseteq> fst ` set df" using ex by (simp add: cols_def)
  have n2': "2 \<le> n" using n2 by (simp add: n_def cols_def)
  show ?thesis
  proof (cases "n \<le> 3")
    case True
    have "n = 2 \<or> n = 3" using True n2' by arith
    then have rows: "(n + n - 1) div n = 1" "(n + 2) div 3 = 1" "min 3 n = n"
      by auto
    have len: "length cols \<le> n" by (simp add: n_def)
    note h = hist_loop_all [OF grid_ok_row [of n] len ex', of 1 n]
    show ?thesis
      using True n2' rows h
      unfolding plot_distributions_def cols Let_def cols_def [symmetric] n_def [symmetric]
      by (simp add: subplots_def n_def [symmetric])
  next
    case False
    then have n4: "4 \<le> n" by simp
    then have rows: "min 3 n = 3" "1 < (n + 2) div 3" "n \<le> (n + 2) div 3 * 3"
      by auto
    have len: "length cols \<le> (n + 2) div 3 * 3" using rows by (simp add: n_def)
    have ok: "grid_ok (Arr2 (map (\<lambda>r. map (\<lambda>c. r * 3 + c) [0..<3]) [0..<(n + 2) div 3]))
                3 ((n + 2) div 3 * 3)"
      by (rule grid_ok_grid) simp
    note h = hist_loop_all [OF ok len ex', of "(n + 2) div 3" 3]
    note g = hide_loop_rest [OF ok len, of "(n + 2) div 3" 3]
    show ?thesis
      using n4 rows h g
      unfolding plot_distributions_def cols Let_def cols_def [symmetric] n_def [symmetric]
      by (simp add: subplots_def n_def [symmetric])
  qed
qed

text \<open>Seven numeric columns: a 3 by 3 grid whose last two subplots are hidden.\<close>

lemma seven_columns_grid:
  "plot_distributions seven_columns None =
     \<lparr> raised = None,
       fig_state = Some
         \<lparr> nrows = 3, ncols = 3,
           cells = map (\<lambda>c. draw_hist c blank_cell) [''a'', ''b'', ''c'', ''d'', ''e'', ''f'', ''g'']
                   @ [blank_cell\<lparr>visible := False\<rparr>, blank_cell\<lparr>visible := False\<rparr>] \<rparr> \<rparr>"
proof -
  have sel: "selected_columns seven_columns None = [''a'', ''b'', ''c'', ''d'', ''e'', ''f'', ''g'']"
    by (simp add: selected_columns_def seven_columns_def select_numeric_def)
  have "set (selected_columns seven_columns None) \<subseteq> fst ` set seven_columns"
    unfolding sel by (simp add: seven_columns_def)
  moreover have "2 \<le> length (selected_columns seven_columns None)"
    unfolding sel by simp
  moreover have "replicate 2 (blank_cell\<lparr>visible := False\<rparr>) =
      [blank_cell\<lparr>visible := False\<rparr>, blank_cell\<lparr>visible := False\<rparr>]"
    by (simp add: numeral_2_eq_2)
  ultimately show ?thesis
    using plot_layout [of seven_columns None] by (simp add: sel)
qed

theorem few_columns_raise_witness:
  "length (selected_columns one_column None) \<le> 1 \<and>
   raised (plot_distributions one_column None) = Some AttributeError \<and>
   histograms_drawn (fig_state (plot_distributions one_column None)) = 0 \<and>
   length (selected_columns text_only None) \<le> 1 \<and>
   raised (plot_distributions text_only None) = Some ZeroDivisionError \<and>
   histograms_drawn (fig_state (plot_distributions text_only None)) = 0 \<and>
   raised (plot_distributions seven_columns None) = None \<and>
   2 \<le> length (selected_columns seven_columns None)"
  using few_columns_raise [of one_column None] few_columns_raise [of text_only None]
    few_columns_raise [of seven_columns None]
  by (simp add: seven_columns_grid plot_no_columns plot_single_column selected_columns_def
      one_column_def text_only_def select_numeric_def histograms_drawn_def blank_cell_def)

text \<open>
  claim C6 fails on a list of one column.  The grid is 1 by 1, for which the plotting
  library returns a single axes object and not an array; the reshape of line 101 then
  raises \<open>AttributeError\<close>, before any histogram is drawn.  The claim asks for a 1 by 1
  grid holding the histogram.
\<close>

theorem single_column_raises:
  "plot_distributions one_column (Some [''a'']) =
     \<lparr> raised = Some AttributeError,
       fig_state = Some \<lparr> nrows = 1, ncols = 1, cells = [blank_cell] \<rparr> \<rparr>"
  by (simp add: plot_distributions_def subplots_def)


section \<open>Properties of the formatting\<close>

lemma dec_digit: "n < 10 \<Longrightarrow> dec n = [''0123456789'' ! n]"
  by (simp add: dec.simps)

lemma round_half_even_close: "\<bar>of_int (round_half_even y) - y\<bar> \<le> 1 / 2"
  unfolding round_half_even_def Let_def by (auto simp: abs_le_iff)

lemma py_fixed_one_decimal:
  assumes "0 \<le> p"
  shows "py_fixed 1 (Some p) =
           dec (nat (round_half_even (p * 10)) div 10) @ ''.'' @
           dec (nat (round_half_even (p * 10)) mod 10)"
  using assms by (simp add: py_fixed_def Let_def zero_pad_def dec_digit)

lemma round_half_even_nonneg: "0 \<le> y \<Longrightarrow> 0 \<le> round_half_even y"
  unfolding round_half_even_def Let_def by (auto simp: add_nonneg_nonneg)

lemma tenths_close:
  assumes "0 \<le> q" and "k = nat (round_half_even (q * 10))"
  shows "\<bar>real k / 10 - q\<bar> \<le> 1 / 20"
proof -
  have "0 \<le> round_half_even (q * 10)"
    using assms(1) by (intro round_half_even_nonneg) simp
  then have k: "real k = real_of_int (round_half_even (q * 10))"
    using assms(2) by simp
  have "\<bar>real_of_int (round_half_even (q * 10)) - q * 10\<bar> \<le> 1 / 2"
    by (rule round_half_even_close)
  then show ?thesis
    unfolding k by linarith
qed

lemma digit_value_digit: "d < 10 \<Longrightarrow> digit_value (''0123456789'' ! d) = d"
proof -
  assume "d < 10"
  then have "d = 0 \<or> d = 1 \<or> d = 2 \<or> d = 3 \<or> d = 4 \<or> d = 5 \<or> d = 6 \<or> d = 7 \<or> d = 8 \<or> d = 9"
    by arith
  then show ?thesis
    by (auto simp: digit_value_def)
qed

lemma digits_value_snoc: "digits_value (s @ [c]) = digits_value s * 10 + digit_value c"
  by (simp add: digits_value_def)

text \<open>The digits that \<open>dec\<close> writes denote the number written.\<close>

lemma digits_value_dec: "digits_value (dec n) = n"
proof (induction n rule: dec.induct)
  case (1 n)
  show ?case
  proof (cases "n < 10")
    case True
    then show ?thesis
      by (simp add: dec_digit digits_value_def digit_value_digit)
  next
    case False
    with "1.IH" have "digits_value (dec (n div 10)) = n div 10" by simp
    with False show ?thesis
      by (subst dec.simps) (simp add: digits_value_snoc digit_value_digit)
  qed
qed

subsection \<open>Double arithmetic\<close>

lemma binade_numeral:
  "binade (numeral n) x =
     (if 2 \<le> x then binade (pred_numeral n) (x / 2) + 1
      else if x < 1 then binade (pred_numeral n) (x * 2) - 1
      else 0)"
  by (simp add: numeral_eq_Suc)

text \<open>With enough steps, \<open>binade\<close> finds the exponent.\<close>

lemma binade_bounds:
  assumes "2 powi (- int k) \<le> x" and "x < 2 powi (int k + 1)"
  shows "2 powi (binade k x) \<le> x \<and> x < 2 powi (binade k x + 1)"
  using assms
proof (induction k arbitrary: x)
  case 0
  then show ?case by simp
next
  case (Suc k)
  have pos: "(0::real) < 2 powi (- int k)" by simp
  show ?case
  proof (cases "2 \<le> x")
    case True
    have "x / 2 < 2 powi (int k + 1)"
      using Suc.prems(2) by (simp add: power_int_add)
    moreover have "2 powi (- int k) \<le> x / 2"
    proof -
      have "(2::real) powi (- int k) \<le> 1"
        by (simp add: power_int_minus inverse_le_1_iff one_le_power)
      with True show ?thesis by linarith
    qed
    ultimately have "2 powi (binade k (x / 2)) \<le> x / 2 \<and> x / 2 < 2 powi (binade k (x / 2) + 1)"
      by (intro Suc.IH)
    with True show ?thesis
      by (simp add: power_int_add)
  next
    case False
    show ?thesis
    proof (cases "x < 1")
      case True
      have "2 powi (- int k) \<le> x * 2"
        using Suc.prems(1) by (simp add: power_int_diff power_int_minus field_simps)
      moreover have "x * 2 < 2 powi (int k + 1)"
      proof -
        have "(2::real) \<le> 2 powi (int k + 1)"
          by (simp add: power_int_add one_le_power)
        with True show ?thesis by linarith
      qed
      ultimately have "2 powi (binade k (x * 2)) \<le> x * 2 \<and> x * 2 < 2 powi (binade k (x * 2) + 1)"
        by (intro Suc.IH)
      with True False show ?thesis
        by (simp add: power_int_diff power_int_add)
    next
      case False
      with \<open>\<not> 2 \<le> x\<close> show ?thesis by simp
    qed
  qed
qed

lemma f64_nonneg: "0 \<le> x \<Longrightarrow> 0 \<le> f64 x"
  unfolding f64_def Let_def
  by (auto intro!: mult_nonneg_nonneg round_half_even_nonneg divide_nonneg_nonneg)

lemma percent_f64_nonneg: "0 \<le> percent_f64 m n"
  unfolding percent_f64_def
  by (intro f64_nonneg mult_nonneg_nonneg divide_nonneg_nonneg) simp_all

section \<open>Properties of the explorer\<close>

lemma by_mask_map: "by_mask (map p xs) (map f xs) = map f (filter p xs)"
  by (induction xs) (simp_all add: by_mask_def)

lemma missing_shown_eq:
  "missing_shown df =
     \<lparr> row_labels = map fst (filter (\<lambda>(name, c). 0 < isnull_sum c) df),
       frame_cols =
         [(missing_count_label,
           IntCol (map (\<lambda>(name, c). int (isnull_sum c))
                    (filter (\<lambda>(name, c). 0 < isnull_sum c) df))),
          (missing_percent_label,
           FloatCol (map (\<lambda>(name, c). percent (isnull_sum c) (len_df df))
                      (filter (\<lambda>(name, c). 0 < isnull_sum c) df)))] \<rparr>"
proof -
  have p: "(\<lambda>(name, c). 0 < int (isnull_sum c)) = (\<lambda>(name, c). 0 < isnull_sum c)"
    by (auto simp: fun_eq_iff)
  show ?thesis
    by (simp add: missing_shown_def missing_df_def frame_by_mask_def by_mask_map p)
qed

lemma explore_ends_with_missing:
  "explore_raised (explore_data mem df si ss) = None \<Longrightarrow>
     last (printed (explore_data mem df si ss)) = Frame_repr (missing_shown df)"
  by (auto simp: explore_data_def Let_def split: sum.splits if_splits)

lemma describe_ok: "df \<noteq> [] \<Longrightarrow> \<exists>s. describe_df df = Inr s"
  by (simp add: describe_df_def)

lemma explore_completes:
  "df \<noteq> [] \<Longrightarrow> explore_raised (explore_data mem df si ss) = None"
  using describe_ok [of df] by (auto simp: explore_data_def Let_def)

text \<open>
  claim C3 (as amended).  Whenever the explorer reaches its last print, what it prints
  there is the missing-value frame restricted to the columns whose missing count is not
  zero, in table order, each with its missing count and with the percentage
  \<open>missing / rows * 100\<close>.  The explorer does not round the percentage.
\<close>

theorem missing_table_listing:
  "(explore_raised (explore_data mem df si ss) = None \<longrightarrow>
      last (printed (explore_data mem df si ss)) = Frame_repr (missing_shown df)) \<and>
   missing_shown df =
     \<lparr> row_labels = map fst (filter (\<lambda>(name, c). 0 < isnull_sum c) df),
       frame_cols =
         [(missing_count_label,
           IntCol (map (\<lambda>(name, c). int (isnull_sum c))
                    (filter (\<lambda>(name, c). 0 < isnull_sum c) df))),
          (missing_percent_label,
           FloatCol (map (\<lambda>(name, c). percent (isnull_sum c) (len_df df))
                      (filter (\<lambda>(name, c). 0 < isnull_sum c) df)))] \<rparr> \<and>
   (0 < len_df df \<longrightarrow>
      percent k (len_df df) = Some (real k / real (len_df df) * 100))"
  using explore_ends_with_missing [of mem df si ss] missing_shown_eq [of df]
  by (simp add: percent_def)

text \<open>
  The example of claim C3: three columns with missing counts 0, 2 and 0 in 10 rows give
  one listed row, with count 2 and percentage 20.
\<close>

theorem missing_table_listing_witness:
  "explore_raised (explore_data (\<lambda>df. 0) ten_rows True True) = None \<and>
   last (printed (explore_data (\<lambda>df. 0) ten_rows True True)) =
     Frame_repr \<lparr> row_labels = [''score''],
                  frame_cols = [(missing_count_label, IntCol [2]),
                                (missing_percent_label, FloatCol [Some 20])] \<rparr> \<and>
   0 < len_df ten_rows \<and>
   percent 2 (len_df ten_rows) = Some 20"
proof -
  have "ten_rows \<noteq> []" by (simp add: ten_rows_def)
  then have r: "explore_raised (explore_data (\<lambda>df. 0) ten_rows True True) = None"
    by (rule explore_completes)
  have m: "missing_shown ten_rows =
     \<lparr> row_labels = [''score''],
       frame_cols = [(missing_count_label, IntCol [2]),
                     (missing_percent_label, FloatCol [Some 20])] \<rparr>"
    by (simp add: missing_shown_eq ten_rows_def percent_def)
  have l: "len_df ten_rows = 10" by (simp add: ten_rows_def)
  from missing_table_listing [of "\<lambda>df. 0" ten_rows True True 2] r m l
  show ?thesis by simp
qed

text \<open>
  claim C3 as stated fails.  In a table of three rows whose second column misses one
  entry, the listed percentage is one hundred thirds, which has more than one decimal
  place: it is not rounded.
\<close>

theorem missing_percent_not_rounded:
  "frame_cols (missing_shown thirds) ! 1 = (missing_percent_label, FloatCol [Some (100 / 3)]) \<and>
   \<not> has_decimals 1 (100 / 3)"
  by (simp add: missing_shown_eq thirds_def percent_def has_decimals_def)

section \<open>Properties of the report builder\<close>

lemma written_opened:
  "describe_df df = Inr s \<Longrightarrow>
   written (create_summary_report mem True df path) =
     [Lit report_title,
      Lit (shape_label @ shape_str df @ [CHR 0x0A]),
      Lit (memory_label @ py_fixed 2 (Some (memory_mb mem df)) @
           '' MB'' @ [CHR 0x0A, CHR 0x0A]),
      Lit columns_header]
     @ map (column_line df) df
     @ [Lit stats_header, Summary_str s, Lit corr_header]
     @ (if 1 < length (select_numeric df) then [Frame_str (corr (select_numeric df))] else [])"
  by (simp add: create_summary_report_def Let_def)

lemma column_line_written:
  assumes "describe_df df = Inr s" and "(col, c) \<in> set df"
  shows "column_line df (col, c) \<in> set (written (create_summary_report mem True df path))"
  using assms by (simp add: written_opened)

lemma column_line_digits:
  assumes "0 < len_df df" and "k = nat (round_half_even (percent_f64 (isnull_sum c) (len_df df) * 10))"
  shows "column_line df (col, c) =
           Lit (col @ '': '' @ dtype_name c @ missing_label @ dec (isnull_sum c) @ '' ('' @
                dec (k div 10) @ ''.'' @ dec (k mod 10) @ ''%)'' @ [CHR 0x0A])"
  using assms py_fixed_one_decimal [OF percent_f64_nonneg [of "isnull_sum c" "len_df df"]]
  by (simp add: column_line_def missing_pct_def)

text \<open>
  claim C2 (as amended).  For a table with at least one row, the report's line of every
  column gives the missing percentage as the digits of an integer \<open>k\<close> with a point before
  the last digit: exactly one digit after the point.  The number so written, \<open>k / 10\<close>, is
  the double that the program computes for the percentage, rounded to one decimal place.
  The statistics table is written as \<open>describe\<close> returns it: the report builder applies no
  rounding to it.
\<close>

theorem report_figures:
  assumes rows: "0 < len_df df" and col: "(col, c) \<in> set df"
    and k: "k = nat (round_half_even (percent_f64 (isnull_sum c) (len_df df) * 10))"
  shows "Lit (col @ '': '' @ dtype_name c @ missing_label @ dec (isnull_sum c) @ '' ('' @
              dec (k div 10) @ ''.'' @ dec (k mod 10) @ ''%)'' @ [CHR 0x0A])
           \<in> set (written (create_summary_report mem True df path)) \<and>
         digits_value (dec (k div 10)) = k div 10 \<and>
         digits_value (dec (k mod 10)) = k mod 10 \<and>
         length (dec (k mod 10)) = 1 \<and>
         \<bar>real k / 10 - percent_f64 (isnull_sum c) (len_df df)\<bar> \<le> 1 / 20 \<and>
         (\<exists>s. describe_df df = Inr s \<and>
              Summary_str s \<in> set (written (create_summary_report mem True df path)))"
proof -
  from rows have "df \<noteq> []" by auto
  then obtain s where s: "describe_df df = Inr s"
    using describe_ok by blast
  have "column_line df (col, c) \<in> set (written (create_summary_report mem True df path))"
    using s col by (rule column_line_written)
  then have a: "Lit (col @ '': '' @ dtype_name c @ missing_label @ dec (isnull_sum c) @ '' ('' @
              dec (k div 10) @ ''.'' @ dec (k mod 10) @ ''%)'' @ [CHR 0x0A])
           \<in> set (written (create_summary_report mem True df path))"
    by (simp only: column_line_digits [OF rows k])
  have b: "Summary_str s \<in> set (written (create_summary_report mem True df path))"
    using s by (simp add: written_opened)
  have d: "length (dec (k mod 10)) = 1"
    by (simp add: dec_digit)
  have e: "\<bar>real k / 10 - percent_f64 (isnull_sum c) (len_df df)\<bar> \<le> 1 / 20"
    using percent_f64_nonneg k by (rule tenths_close)
  from a b d e s digits_value_dec show ?thesis by blast
qed

lemma f64_23: "f64 23 = 23"
  by (simp add: f64_def binade_numeral round_half_even_def Let_def)

lemma f64_80: "f64 80 = 80"
  by (simp add: f64_def binade_numeral round_half_even_def Let_def)

lemma f64_23_80: "f64 (23 / 80) = 5179139571476070 / 2 ^ 54"
  by (simp add: f64_def binade_numeral round_half_even_def Let_def)

lemma f64_23_80_100: "f64 (f64 (23 / 80) * 100) = 8092405580431359 / 2 ^ 48"
  unfolding f64_23_80 by (simp add: f64_def binade_numeral round_half_even_def Let_def)

text \<open>
  23 missing entries in 80 rows: the quotient and the product are rounded down, the
  double is just below 28.75, and the report says 28.7 where exact arithmetic would give
  the tie 28.75.
\<close>

lemma percent_f64_23_80: "percent_f64 23 80 = 8092405580431359 / 2 ^ 48"
  by (simp add: percent_f64_def f64_23 f64_80 f64_23_80_100)

lemma tenths_23_80: "nat (round_half_even (percent_f64 23 80 * 10)) = 287"
  unfolding percent_f64_23_80 by (simp add: round_half_even_def Let_def)

theorem report_figures_witness:
  "0 < len_df eighty_rows \<and>
   (''x'', FloatCol (replicate 23 None @ replicate 57 (Some 1))) \<in> set eighty_rows \<and>
   (287::nat) = nat (round_half_even (percent_f64
       (isnull_sum (FloatCol (replicate 23 None @ replicate 57 (Some 1)))) (len_df eighty_rows) * 10)) \<and>
   Lit (''x: float64'' @ missing_label @ ''23 (28.7%)'' @ [CHR 0x0A])
     \<in> set (written (create_summary_report (\<lambda>df. 0) True eighty_rows ''report.txt'')) \<and>
   \<bar>real 287 / 10 - percent_f64 23 80\<bar> \<le> 1 / 20"
proof -
  let ?c = "FloatCol (replicate 23 None @ replicate 57 (Some 1))"
  have l: "0 < len_df eighty_rows" and m: "(''x'', ?c) \<in> set eighty_rows"
    by (simp_all add: eighty_rows_def)
  have n: "len_df eighty_rows = 80" "isnull_sum ?c = 23"
    by (simp_all add: eighty_rows_def)
  have k: "(287::nat) = nat (round_half_even (percent_f64 (isnull_sum ?c) (len_df eighty_rows) * 10))"
    unfolding n by (simp add: tenths_23_80)
  have d: "dec 287 = ''287''" "dec 28 = ''28''" "dec 23 = ''23''" "dec 7 = ''7''"
    by (simp_all add: dec.simps [of 287] dec.simps [of 28] dec.simps [of 23] dec_digit)
  note rf = report_figures [OF l m k, of "\<lambda>df. 0" "''report.txt''", unfolded n]
  from rf have "Lit (''x'' @ '': '' @ dtype_name ?c @ missing_label @ dec 23 @ '' ('' @
              dec (287 div 10) @ ''.'' @ dec (287 mod 10) @ ''%)'' @ [CHR 0x0A])
           \<in> set (written (create_summary_report (\<lambda>df. 0) True eighty_rows ''report.txt''))"
    by blast
  then have w: "Lit (''x: float64'' @ missing_label @ ''23 (28.7%)'' @ [CHR 0x0A])
     \<in> set (written (create_summary_report (\<lambda>df. 0) True eighty_rows ''report.txt''))"
    by (simp add: d)
  from rf have "\<bar>real 287 / 10 - percent_f64 23 80\<bar> \<le> 1 / 20"
    by blast
  with l m k w show ?thesis by blast
qed

lemma thirds_described:
  "\<exists>rest. describe_df thirds = Inr (Numeric_summary
     \<lparr> row_labels = [''count'', ''mean'', ''std'', ''min'', ''25%'', ''50%'', ''75%'', ''max''],
       frame_cols = (''v'', FloatCol (Some 3 # Some (1 / 3) # rest)) #
                    [(''w'', FloatCol (col_stats (FloatCol [Some 5, None, Some 7])))] \<rparr>)"
  by (simp add: describe_df_def thirds_def select_numeric_def col_stats_def mean_def Let_def)

text \<open>
  claim C2 as stated fails.  For a table whose first column holds 0, 0 and 1, the
  statistics table written to the report contains the mean one third, which has more
  than two decimal places.
\<close>

theorem stats_not_rounded:
  "1 / 3 \<in> set (concat (map stats_values
      (written (create_summary_report (\<lambda>df. 0) True thirds ''report.txt'')))) \<and>
   \<not> has_decimals 2 (1 / 3)"
proof -
  from thirds_described obtain rest where
    d: "describe_df thirds = Inr (Numeric_summary
     \<lparr> row_labels = [''count'', ''mean'', ''std'', ''min'', ''25%'', ''50%'', ''75%'', ''max''],
       frame_cols = (''v'', FloatCol (Some 3 # Some (1 / 3) # rest)) #
                    [(''w'', FloatCol (col_stats (FloatCol [Some 5, None, Some 7])))] \<rparr>)"
    by blast
  have "1 / 3 \<in> set (concat (map stats_values
      (written (create_summary_report (\<lambda>df. 0) True thirds ''report.txt''))))"
    by (simp add: written_opened [OF d] column_line_def)
  moreover have "\<not> has_decimals 2 (1 / 3)"
    by (simp add: has_decimals_def)
  ultimately show ?thesis by simp
qed

lemma column_line_is_Lit: "\<exists>t. column_line df x = Lit t"
  by (cases x) (simp add: column_line_def)

lemma no_frame_in_lines: "Frame_str fr \<notin> set (map (column_line df) xs)"
  using column_line_is_Lit by (induction xs) (auto, metis piece.distinct(1))

text \<open>
  claim C1 (as amended).  For every table with at least one column whose report file
  can be opened, the report is written to its end and contains the correlation header.
  With fewer than two numeric columns the header is the last thing written and no
  correlation matrix is written; with two or more the matrix follows the header.
\<close>

theorem correlation_section:
  assumes "df \<noteq> []"
  shows "report_raised (create_summary_report mem True df path) = None \<and>
         Lit corr_header \<in> set (written (create_summary_report mem True df path)) \<and>
         (length (select_numeric df) < 2 \<longrightarrow>
            last (written (create_summary_report mem True df path)) = Lit corr_header \<and>
            (\<forall>fr. Frame_str fr \<notin> set (written (create_summary_report mem True df path)))) \<and>
         (2 \<le> length (select_numeric df) \<longrightarrow>
            last (written (create_summary_report mem True df path))
              = Frame_str (corr (select_numeric df)))"
proof -
  from assms obtain s where s: "describe_df df = Inr s"
    using describe_ok by blast
  have r: "report_raised (create_summary_report mem True df path) = None"
    using s by (simp add: create_summary_report_def Let_def)
  have h: "Lit corr_header \<in> set (written (create_summary_report mem True df path))"
    by (simp add: written_opened [OF s])
  have few: "last (written (create_summary_report mem True df path)) = Lit corr_header \<and>
            (\<forall>fr. Frame_str fr \<notin> set (written (create_summary_report mem True df path)))"
    if "length (select_numeric df) < 2"
    using that no_frame_in_lines [of _ df df] by (simp add: written_opened [OF s])
  have many: "last (written (create_summary_report mem True df path))
              = Frame_str (corr (select_numeric df))"
    if "2 \<le> length (select_numeric df)"
    using that by (simp add: written_opened [OF s])
  from r h few many show ?thesis by blast
qed

theorem correlation_section_witness:
  "one_column \<noteq> [] \<and> length (select_numeric one_column) < 2 \<and>
   last (written (create_summary_report (\<lambda>df. 0) True one_column ''report.txt''))
     = Lit corr_header \<and>
   flat_and_rising \<noteq> [] \<and> 2 \<le> length (select_numeric flat_and_rising) \<and>
   last (written (create_summary_report (\<lambda>df. 0) True flat_and_rising ''report.txt''))
     = Frame_str (corr flat_and_rising)"
  using correlation_section [of one_column "\<lambda>df. 0" "''report.txt''"]
    correlation_section [of flat_and_rising "\<lambda>df. 0" "''report.txt''"]
  by (simp add: one_column_def flat_and_rising_def select_numeric_def)

text \<open>
  claim C1 as stated fails.  A table with one numeric column has fewer than two, and the
  correlation header is among the writes of its report.
\<close>

theorem correlation_header_written:
  "length (select_numeric one_column) < 2 \<and>
   Lit corr_header
     \<in> set (written (create_summary_report (\<lambda>df. 0) True one_column ''report.txt''))"
proof -
  have "one_column \<noteq> []" by (simp add: one_column_def)
  then obtain s where s: "describe_df one_column = Inr s"
    using describe_ok by blast
  show ?thesis
    by (simp add: written_opened [OF s]) (simp add: one_column_def select_numeric_def)
qed

section \<open>Properties of the correlation matrix\<close>

lemma both_present_swap: "both_present ys xs = map prod.swap (both_present xs ys)"
  by (induction xs ys rule: both_present.induct) simp_all

lemma pearson_sym: "pearson xs ys = pearson ys xs"
proof -
  have "both_present ys xs = map prod.swap (both_present xs ys)"
    by (rule both_present_swap)
  then show ?thesis
    unfolding pearson_def Let_def
    by (simp add: comp_def case_prod_unfold mult.commute)
qed

lemma both_present_self: "both_present xs xs = map (\<lambda>v. (v, v)) (present xs)"
  by (induction xs rule: present.induct) simp_all

lemma squares_zero_iff:
  "sum_list (map (\<lambda>v. (v - m)\<^sup>2) vs) = 0 \<longleftrightarrow> (\<forall>v \<in> set vs. v = m)" for m :: real
proof -
  have "sum_list (map (\<lambda>v. (v - m)\<^sup>2) vs) = 0
          \<longleftrightarrow> (\<forall>x \<in> set (map (\<lambda>v. (v - m)\<^sup>2) vs). x = 0)"
    by (rule sum_list_nonneg_eq_0_iff) auto
  then show ?thesis by auto
qed

lemma mean_constant:
  assumes "vs \<noteq> []" and "\<forall>v \<in> set vs. v = a"
  shows "mean vs = a"
proof -
  from assms(2) have "vs = replicate (length vs) a"
    by (simp add: replicate_length_same)
  then have "sum_list vs = real (length vs) * a"
    by (metis sum_list_replicate mult.commute mult_of_nat_commute)
  with assms(1) show ?thesis by (simp add: mean_def)
qed

lemma spread_iff:
  "has_spread xs \<longleftrightarrow> sum_list (map (\<lambda>v. (v - mean (present xs))\<^sup>2) (present xs)) \<noteq> 0"
proof
  assume "has_spread xs"
  then obtain a b where ab: "a \<in> set (present xs)" "b \<in> set (present xs)" "a \<noteq> b"
    by (auto simp: has_spread_def)
  show "sum_list (map (\<lambda>v. (v - mean (present xs))\<^sup>2) (present xs)) \<noteq> 0"
  proof
    assume "sum_list (map (\<lambda>v. (v - mean (present xs))\<^sup>2) (present xs)) = 0"
    then have "\<forall>v \<in> set (present xs). v = mean (present xs)"
      by (simp add: squares_zero_iff)
    with ab show False by metis
  qed
next
  assume n0: "sum_list (map (\<lambda>v. (v - mean (present xs))\<^sup>2) (present xs)) \<noteq> 0"
  then obtain v where v: "v \<in> set (present xs)" "v \<noteq> mean (present xs)"
    using squares_zero_iff [of "mean (present xs)" "present xs"] by auto
  show "has_spread xs"
  proof (rule ccontr)
    assume "\<not> has_spread xs"
    then have "\<forall>w \<in> set (present xs). w = v"
      using v(1) by (auto simp: has_spread_def)
    moreover have "present xs \<noteq> []" using v(1) by auto
    ultimately have "mean (present xs) = v" by (rule mean_constant [rotated])
    with v(2) show False by simp
  qed
qed

lemma pearson_self:
  "pearson xs xs = (if has_spread xs then Some 1 else None)"
proof -
  let ?vs = "present xs"
  let ?s = "sum_list (map (\<lambda>v. (v - mean ?vs)\<^sup>2) ?vs)"
  have nonneg: "0 \<le> ?s" by (rule sum_list_nonneg) auto
  have empty: "?s = 0" if "?vs = []" using that by simp
  have p: "pearson xs xs =
      (if ?vs = [] \<or> sqrt (?s * ?s) = 0 then None else Some (?s / sqrt (?s * ?s)))"
    unfolding pearson_def Let_def both_present_self
    by (simp add: comp_def power2_eq_square)
  have q: "sqrt (?s * ?s) = ?s" using nonneg by (simp add: real_sqrt_mult_self)
  show ?thesis
    unfolding p q spread_iff using empty by auto
qed

lemma has_spreadI:
  "a \<in> set (present xs) \<Longrightarrow> b \<in> set (present xs) \<Longrightarrow> a \<noteq> b \<Longrightarrow> has_spread xs"
  unfolding has_spread_def by blast

lemma corr_entry:
  assumes "i < length df" and "j < length df"
  shows "frame_entry (corr df) i j =
           Some (pearson (numbers (snd (df ! i))) (numbers (snd (df ! j))))"
  using assms by (simp add: frame_entry_def corr_def case_prod_unfold)

lemma corr_labels:
  "row_labels (corr df) = map fst df \<and> map fst (frame_cols (corr df)) = map fst df"
  by (simp add: corr_def case_prod_unfold comp_def)

text \<open>
  claim C8 (as amended).  For every table with at least two numeric columns, the
  correlation matrix of the report is labelled, in rows and in columns, by the numeric
  columns in table order; it is symmetric; and its diagonal entry is 1 for a column in
  which two present values differ, and NaN for every other column.
\<close>

theorem correlation_matrix:
  assumes "2 \<le> length (select_numeric df)"
  shows "row_labels (corr (select_numeric df)) = map fst (select_numeric df) \<and>
         map fst (frame_cols (corr (select_numeric df))) = map fst (select_numeric df) \<and>
         (\<forall>i < length (select_numeric df). \<forall>j < length (select_numeric df).
            \<exists>v. frame_entry (corr (select_numeric df)) i j = Some v \<and>
                frame_entry (corr (select_numeric df)) j i = Some v) \<and>
         (\<forall>i < length (select_numeric df).
            frame_entry (corr (select_numeric df)) i i =
              Some (if has_spread (numbers (snd (select_numeric df ! i))) then Some 1 else None))"
proof (intro conjI allI impI)
  show "row_labels (corr (select_numeric df)) = map fst (select_numeric df)"
    by (simp add: corr_labels)
  show "map fst (frame_cols (corr (select_numeric df))) = map fst (select_numeric df)"
    by (simp add: corr_labels)
next
  fix i j
  assume ij: "i < length (select_numeric df)" "j < length (select_numeric df)"
  have "frame_entry (corr (select_numeric df)) j i =
          Some (pearson (numbers (snd (select_numeric df ! i)))
                        (numbers (snd (select_numeric df ! j))))"
    using ij by (simp only: corr_entry pearson_sym [of "numbers (snd (select_numeric df ! j))"])
  with ij show "\<exists>v. frame_entry (corr (select_numeric df)) i j = Some v \<and>
                frame_entry (corr (select_numeric df)) j i = Some v"
    by (simp only: corr_entry) blast
next
  fix i
  assume "i < length (select_numeric df)"
  then show "frame_entry (corr (select_numeric df)) i i =
      Some (if has_spread (numbers (snd (select_numeric df ! i))) then Some 1 else None)"
    by (simp only: corr_entry pearson_self)
qed

theorem correlation_matrix_witness:
  "2 \<le> length (select_numeric thirds) \<and>
   row_labels (corr (select_numeric thirds)) = [''v'', ''w''] \<and>
   frame_entry (corr (select_numeric thirds)) 0 1 = frame_entry (corr (select_numeric thirds)) 1 0 \<and>
   frame_entry (corr (select_numeric thirds)) 0 0 = Some (Some 1) \<and>
   frame_entry (corr (select_numeric thirds)) 1 1 = Some (Some 1)"
proof -
  have sel: "select_numeric thirds = thirds"
    by (simp add: select_numeric_def thirds_def)
  have l: "length thirds = 2"
    by (simp add: thirds_def)
  have len: "2 \<le> length (select_numeric thirds)"
    by (simp add: sel l)
  note c = correlation_matrix [OF len, unfolded sel l]
  from c have labels: "row_labels (corr thirds) = map fst thirds"
    by blast
  from c have diag: "frame_entry (corr thirds) i i =
      Some (if has_spread (numbers (snd (thirds ! i))) then Some 1 else None)" if "i < 2" for i
    using that by blast
  from c have sym: "\<exists>v. frame_entry (corr thirds) i j = Some v \<and>
      frame_entry (corr thirds) j i = Some v" if "i < 2" "j < 2" for i j
    using that by blast
  have s0: "has_spread (numbers (snd (thirds ! 0)))"
    by (rule has_spreadI [of 0 _ 1]) (simp_all add: thirds_def)
  have s1: "has_spread (numbers (snd (thirds ! 1)))"
    by (rule has_spreadI [of 5 _ 7]) (simp_all add: thirds_def)
  have "frame_entry (corr thirds) 0 1 = frame_entry (corr thirds) 1 0"
    using sym [of 0 1] by auto
  moreover have "frame_entry (corr thirds) 0 0 = Some (Some 1)"
    using diag [of 0] s0 by simp
  moreover have "frame_entry (corr thirds) 1 1 = Some (Some 1)"
    using diag [of 1] s1 by simp
  moreover have "row_labels (corr thirds) = [''v'', ''w'']"
    using labels by (simp add: thirds_def)
  ultimately show ?thesis
    using len by (simp add: sel)
qed

text \<open>
  claim C8 as stated fails.  In a table of two numeric columns of which the first is
  constant, the diagonal entry of the first column is NaN and not 1.
\<close>

theorem constant_column_diagonal:
  "2 \<le> length (select_numeric flat_and_rising) \<and>
   frame_entry (corr (select_numeric flat_and_rising)) 0 0 = Some None"
proof -
  have sel: "select_numeric flat_and_rising = flat_and_rising"
    by (simp add: select_numeric_def flat_and_rising_def)
  have "frame_entry (corr flat_and_rising) 0 0 = Some (pearson [Some 1, Some 1] [Some 1, Some 1])"
    by (simp add: corr_entry flat_and_rising_def)
  moreover have "\<not> has_spread [Some 1, Some 1]"
    by (simp add: has_spread_def)
  ultimately show ?thesis
    unfolding sel by (simp add: pearson_self) (simp add: flat_and_rising_def)
qed

end
